theory Spec2Isabelle
  imports Complex_Main "HOL-Library.Multiset"
begin

section \<open>Python values used by the services\<close>

text \<open>
  Python \<open>str\<close> values are modelled as \<open>string\<close>, one \<open>char\<close> per code point, which
  covers the code points below 256 (ASCII and Latin-1; the rule table's \<open>m\<twosuperior>\<close> is
  \<open>CHR 0xB2\<close>). Python \<open>int\<close> is \<open>int\<close>. Python \<open>float\<close> is modelled by \<open>real\<close>: the
  arithmetic of the calculator is read exactly, without IEEE rounding. A dictionary whose
  keys are fixed by the code is a record; a key that may be missing, or whose value may be
  \<open>None\<close>, is an \<open>option\<close> field. Message texts that interpolate floats or contain
  characters beyond Latin-1 are represented by a constructor per message template that
  carries the interpolated values.
\<close>

subsection \<open>Strings\<close>

definition lower_char :: "char \<Rightarrow> char" where
  \<comment> \<open>\<open>str.lower\<close> on one code point below 256: A-Z, and the Latin-1 capitals
      0xC0-0xDE except the multiplication sign 0xD7.\<close>
  "lower_char c =
     (let n = (of_char c :: nat)
      in if (65 \<le> n \<and> n \<le> 90) \<or> (192 \<le> n \<and> n \<le> 222 \<and> n \<noteq> 215)
         then char_of (n + 32) else c)"

definition lower :: "string \<Rightarrow> string" where
  "lower s = map lower_char s"

fun starts_with :: "string \<Rightarrow> string \<Rightarrow> bool" where
  \<comment> \<open>\<open>starts_with sub s\<close>: \<open>s.startswith(sub)\<close>.\<close>
  "starts_with [] s = True"
| "starts_with (a # sub) [] = False"
| "starts_with (a # sub) (c # s) = (a = c \<and> starts_with sub s)"

fun str_in :: "string \<Rightarrow> string \<Rightarrow> bool" where
  \<comment> \<open>\<open>str_in sub s\<close>: the Python test \<open>sub in s\<close> on strings.\<close>
  "str_in sub [] = (sub = [])"
| "str_in sub (c # s) = (starts_with sub (c # s) \<or> str_in sub s)"

definition is_space :: "char \<Rightarrow> bool" where
  \<comment> \<open>\<open>str.isspace\<close> below 256: what \<open>str.strip()\<close> and \<open>int()\<close> skip.\<close>
  "is_space c =
     (let n = (of_char c :: nat)
      in (9 \<le> n \<and> n \<le> 13) \<or> (28 \<le> n \<and> n \<le> 32) \<or> n = 133 \<or> n = 160)"

definition strip :: "string \<Rightarrow> string" where
  "strip s = rev (dropWhile is_space (rev (dropWhile is_space s)))"

definition is_decimal :: "char \<Rightarrow> bool" where
  \<comment> \<open>The decimal digits 0-9, the only digits \<open>int()\<close> accepts below 256.\<close>
  "is_decimal c = (let n = (of_char c :: nat) in 48 \<le> n \<and> n \<le> 57)"

definition isdigit :: "char \<Rightarrow> bool" where
  \<comment> \<open>\<open>str.isdigit\<close> below 256: 0-9 and the superscripts two, three and one.\<close>
  "isdigit c = (is_decimal c \<or> c = CHR 0xB2 \<or> c = CHR 0xB3 \<or> c = CHR 0xB9)"

definition digit_val :: "char \<Rightarrow> nat" where
  "digit_val c = (of_char c :: nat) - 48"

fun dec_digits :: "nat \<Rightarrow> string \<Rightarrow> nat option" where
  \<comment> \<open>Digits with single underscores between them, as \<open>int()\<close> reads them.\<close>
  "dec_digits acc [] = Some acc"
| "dec_digits acc [c] = (if is_decimal c then Some (acc * 10 + digit_val c) else None)"
| "dec_digits acc (c # d # cs) =
     (if is_decimal c then dec_digits (acc * 10 + digit_val c) (d # cs)
      else if c = CHR ''_'' \<and> is_decimal d then dec_digits acc (d # cs)
      else None)"

definition parse_nat :: "string \<Rightarrow> nat option" where
  "parse_nat s =
     (case s of [] \<Rightarrow> None
      | c # cs \<Rightarrow> if is_decimal c then dec_digits 0 s else None)"

definition py_int :: "string \<Rightarrow> int option" where
  \<comment> \<open>\<open>int(s)\<close> on a string; \<open>None\<close> is the \<open>ValueError\<close>.\<close>
  "py_int s =
     (case strip s of
        [] \<Rightarrow> None
      | c # cs \<Rightarrow>
          if c = CHR ''-'' then map_option (\<lambda>n. - int n) (parse_nat cs)
          else if c = CHR ''+'' then map_option int (parse_nat cs)
          else map_option int (parse_nat (c # cs)))"

fun split_aux :: "char \<Rightarrow> string \<Rightarrow> string \<Rightarrow> string \<Rightarrow> string list" where
  \<comment> \<open>\<open>s.split(s0 # sep)\<close> scanning left to right; \<open>cur\<close> is the current piece, reversed.\<close>
  "split_aux s0 sep cur [] = [rev cur]"
| "split_aux s0 sep cur (c # cs) =
     (if c = s0 \<and> take (length sep) cs = sep
      then rev cur # split_aux s0 sep [] (drop (length sep) cs)
      else split_aux s0 sep (c # cur) cs)"

definition split_per :: "string \<Rightarrow> string list" where
  \<comment> \<open>\<open>s.split("per")\<close>\<close>
  "split_per s = split_aux CHR ''p'' ''er'' [] s"

fun str_nat :: "nat \<Rightarrow> string" where
  "str_nat n =
     (if n < 10 then [char_of (48 + n)]
      else str_nat (n div 10) @ [char_of (48 + n mod 10)])"

declare str_nat.simps [simp del]

definition str_int :: "int \<Rightarrow> string" where
  \<comment> \<open>\<open>str(i)\<close>, also what an f-string writes for an int.\<close>
  "str_int i = (if i < 0 then CHR ''-'' # str_nat (nat (- i)) else str_nat (nat i))"

subsection \<open>Numbers\<close>

definition py_trunc :: "real \<Rightarrow> int" where
  \<comment> \<open>\<open>int(x)\<close> on a float: truncation towards zero.\<close>
  "py_trunc x = (if 0 \<le> x then \<lfloor>x\<rfloor> else \<lceil>x\<rceil>)"

definition round1 :: "real \<Rightarrow> real" where
  \<comment> \<open>\<open>round(x, 1)\<close>: the nearest multiple of one tenth, a tie going to the even one.\<close>
  "round1 x =
     (let y = x * 10; f = \<lfloor>y\<rfloor>; r = y - of_int f
      in if r < 1 / 2 then of_int f / 10
         else if 1 / 2 < r then of_int (f + 1) / 10
         else if even f then of_int f / 10 else of_int (f + 1) / 10)"

section \<open>Buildability engine (\<open>app/services/buildability.py\<close>)\<close>

subsection \<open>Planning rules\<close>

record rules =
  zone_category :: "string option"
  max_height_m :: "real option"
  max_storeys :: "int option"
  max_site_cover_pct :: "real option"
  front_setback_m :: "real option"
  side_setback_m :: "real option"
  rear_setback_m :: "real option"
  min_lot_size_sqm :: "real option"
  min_frontage_m :: "real option"
  max_dwelling_density :: "string option"
  accepted_uses :: "string list"
  assessable_uses :: "string list"
  zone_code :: "string option"
  source :: "string option"

definition mk_rules ::
  "string \<Rightarrow> real \<Rightarrow> int \<Rightarrow> real \<Rightarrow> real \<Rightarrow> real \<Rightarrow> real \<Rightarrow> real option \<Rightarrow> real option
     \<Rightarrow> string \<Rightarrow> string list \<Rightarrow> string list \<Rightarrow> rules" where
  \<comment> \<open>One entry of \<open>ZONE_RULES\<close>, its values in the order the table writes them.\<close>
  "mk_rules cat h st cov fr sd rr lot frt dens acc ass =
     \<lparr> zone_category = Some cat, max_height_m = Some h, max_storeys = Some st,
       max_site_cover_pct = Some cov, front_setback_m = Some fr, side_setback_m = Some sd,
       rear_setback_m = Some rr, min_lot_size_sqm = lot, min_frontage_m = frt,
       max_dwelling_density = Some dens, accepted_uses = acc, assessable_uses = ass,
       zone_code = None, source = None \<rparr>"

definition empty_rules :: rules where
  \<comment> \<open>The empty dictionary \<open>{}\<close>: every \<open>rules.get(...)\<close> finds nothing.\<close>
  "empty_rules =
     \<lparr> zone_category = None, max_height_m = None, max_storeys = None,
       max_site_cover_pct = None, front_setback_m = None, side_setback_m = None,
       rear_setback_m = None, min_lot_size_sqm = None, min_frontage_m = None,
       max_dwelling_density = None, accepted_uses = [], assessable_uses = [],
       zone_code = None, source = None \<rparr>"

definition sq :: string where
  \<comment> \<open>\<open>m\<twosuperior>\<close>, as the use lists write it.\<close>
  "sq = [CHR ''m'', CHR 0xB2]"

definition ZONE_RULES :: "(string \<times> rules) list" where
  \<comment> \<open>The built-in table, in the order the dictionary literal inserts its keys.\<close>
  "ZONE_RULES =
   [ (''Low Density Residential Zone'',
      mk_rules ''Residential Zones Category'' 8.5 2 50 6 1.5 6 (Some 400) (Some 12) ''1 per lot''
        [''Dwelling house'', ''Home-based business'', ''Caretaker's accommodation'']
        [''Dual occupancy'', ''Secondary dwelling'', ''Community facility'', ''Childcare centre'']),
     (''Low-medium Density Residential Zone'',
      mk_rules ''Residential Zones Category'' 12 3 50 6 2 6 (Some 300) (Some 10) ''1 per 300sqm''
        [''Dwelling house'', ''Dual occupancy'', ''Home-based business'']
        [''Multiple dwelling'', ''Short-term accommodation'', ''Rooming accommodation'',
         ''Childcare centre'']),
     (''Medium Density Residential Zone'',
      mk_rules ''Residential Zones Category'' 15 4 50 6 3 6 (Some 200) (Some 10) ''1 per 200sqm''
        [''Dwelling house'', ''Dual occupancy'', ''Multiple dwelling'']
        [''Short-term accommodation'', ''Rooming accommodation'', ''Retirement facility'',
         ''Childcare centre'']),
     (''High Density Residential Zone'',
      mk_rules ''Residential Zones Category'' 22 6 60 6 3 6 (Some 150) (Some 15) ''1 per 100sqm''
        [''Dwelling house'', ''Dual occupancy'', ''Multiple dwelling'']
        [''Short-term accommodation'', ''Rooming accommodation'', ''Retirement facility'',
         ''Shop (< 250'' @ sq @ '')'']),
     (''Principal Centre Zone'',
      mk_rules ''Centre Zones Category'' 45 12 80 0 0 3 (Some 200) None ''1 per 50sqm''
        [''Shop'', ''Office'', ''Food and drink outlet'', ''Multiple dwelling'']
        [''Hotel'', ''Nightclub'', ''Indoor sport'', ''Health care service'',
         ''Educational establishment'']),
     (''Major Centre Zone'',
      mk_rules ''Centre Zones Category'' 25 7 80 0 0 3 (Some 200) None ''1 per 75sqm''
        [''Shop'', ''Office'', ''Food and drink outlet'', ''Multiple dwelling'']
        [''Hotel'', ''Indoor sport'', ''Health care service'', ''Educational establishment'']),
     (''District Centre Zone'',
      mk_rules ''Centre Zones Category'' 15 4 70 0 0 3 (Some 200) None ''1 per 100sqm''
        [''Shop'', ''Office'', ''Food and drink outlet'', ''Health care service'']
        [''Multiple dwelling'', ''Short-term accommodation'', ''Hotel'', ''Childcare centre'']),
     (''Local Centre Zone'',
      mk_rules ''Centre Zones Category'' 12 3 60 0 0 3 (Some 300) None ''1 per 150sqm''
        [''Shop'', ''Food and drink outlet'', ''Office (< 250'' @ sq @ '')'', ''Health care service'']
        [''Multiple dwelling'', ''Short-term accommodation'', ''Childcare centre'']),
     (''Neighbourhood Centre Zone'',
      mk_rules ''Centre Zones Category'' 8.5 2 60 3 0 3 (Some 400) None ''1 per 200sqm''
        [''Shop (< 500'' @ sq @ '')'', ''Food and drink outlet'', ''Health care service'']
        [''Dwelling house'', ''Childcare centre'']),
     (''Low Impact Industry Zone'',
      mk_rules ''Industry Zones Category'' 12 2 70 6 3 6 (Some 1000) (Some 20) ''Caretaker only''
        [''Low impact industry'', ''Warehouse'', ''Service industry'']
        [''Medium impact industry'', ''Outdoor storage'', ''Transport depot'']),
     (''Medium Impact Industry Zone'',
      mk_rules ''Industry Zones Category'' 15 3 70 10 5 10 (Some 2000) (Some 30) ''Caretaker only''
        [''Medium impact industry'', ''Low impact industry'', ''Warehouse'']
        [''High impact industry'', ''Transport depot'', ''Outdoor storage'']),
     (''High Impact Industry Zone'',
      mk_rules ''Industry Zones Category'' 15 3 70 20 10 20 (Some 4000) (Some 50) ''Caretaker only''
        [''High impact industry'', ''Medium impact industry'', ''Special industry'']
        [''Extractive industry'', ''Hazardous chemical facility'']),
     (''Sport and Recreation Zone'',
      mk_rules ''Specialised Zones Category'' 12 2 40 6 3 6 None None ''Caretaker only''
        [''Park'', ''Sport and recreation'']
        [''Club'', ''Food and drink outlet'', ''Market'']),
     (''Open Space Zone'',
      mk_rules ''Specialised Zones Category'' 8.5 2 10 6 3 6 None None ''None''
        [''Park'']
        [''Environment facility'', ''Utility installation'']),
     (''Environmental Management and Conservation Zone'',
      mk_rules ''Other Zones Category'' 8.5 2 10 10 5 10 None None ''Caretaker only''
        [''Park'', ''Nature-based tourism'']
        [''Environment facility'', ''Dwelling house'']),
     (''Community Facilities Zone'',
      mk_rules ''Specialised Zones Category'' 12 3 50 6 3 6 None None ''Caretaker only''
        [''Community facility'', ''Educational establishment'', ''Hospital'']
        [''Childcare centre'', ''Health care service'', ''Place of worship'']),
     (''Tourist Accommodation Zone'',
      mk_rules ''Residential Zones Category'' 15 4 50 6 3 6 (Some 800) (Some 20) ''1 per 200sqm''
        [''Short-term accommodation'', ''Tourist park'']
        [''Multiple dwelling'', ''Food and drink outlet'', ''Shop (< 100'' @ sq @ '')'',
         ''Resort complex'']),
     (''Rural Zone'',
      mk_rules ''Other Zones Category'' 8.5 2 10 20 10 20 (Some 40000) (Some 100) ''1 per lot''
        [''Dwelling house'', ''Home-based business'', ''Animal husbandry'', ''Cropping'',
         ''Rural activity'']
        [''Rural industry'', ''Roadside stall'', ''Tourist park'', ''Nature-based tourism'',
         ''Winery'']),
     (''Rural Residential Zone'',
      mk_rules ''Other Zones Category'' 8.5 2 15 10 5 10 (Some 4000) (Some 40) ''1 per lot''
        [''Dwelling house'', ''Home-based business'']
        [''Dual occupancy'', ''Nature-based tourism'', ''Roadside stall'', ''Rural activity'']),
     (''Emerging Community Zone'',
      mk_rules ''Other Zones Category'' 8.5 2 50 6 1.5 6 (Some 600) (Some 15) ''1 per lot''
        [''Dwelling house'', ''Home-based business'']
        [''Park'', ''Community facility'']),
     (''Mixed Use Zone'',
      mk_rules ''Centre Zones Category'' 15 4 80 0 0 3 (Some 200) None ''1 per 100sqm''
        [''Shop'', ''Office'', ''Food and drink outlet'', ''Multiple dwelling'']
        [''Hotel'', ''Health care service'', ''Short-term accommodation'']),
     (''Specialised Centre Zone'',
      mk_rules ''Centre Zones Category'' 12 3 60 6 3 6 (Some 1000) (Some 20) ''Caretaker only''
        [''Office'', ''Research and technology'', ''Health care service'']
        [''Shop'', ''Food and drink outlet'', ''Educational establishment'']) ]"

fun fuzzy_match :: "string \<Rightarrow> (string \<times> rules) list \<Rightarrow> rules option" where
  \<comment> \<open>The loop of \<open>get_zone_rules\<close>: the first key that contains the code, or is contained
      in it, both lower-cased.\<close>
  "fuzzy_match zone_lower [] = None"
| "fuzzy_match zone_lower ((key, val) # rest) =
     (if str_in zone_lower (lower key) \<or> str_in (lower key) zone_lower
      then Some (val \<lparr> zone_code := Some key, source := Some ''scc_planning_scheme_fuzzy'' \<rparr>)
      else fuzzy_match zone_lower rest)"

definition get_zone_rules :: "string \<Rightarrow> rules option" where
  "get_zone_rules code =
     (case map_of ZONE_RULES code of
        Some r \<Rightarrow> Some (r \<lparr> zone_code := Some code, source := Some ''scc_planning_scheme'' \<rparr>)
      | None \<Rightarrow> fuzzy_match (lower code) ZONE_RULES)"

definition get_planning_rules :: "(string \<Rightarrow> rules option) \<Rightarrow> string \<Rightarrow> rules option" where
  \<comment> \<open>Built-in table first, then the PostGIS table. \<open>try_db_rules\<close> reads a database, so what
      it answers for a zone code is the parameter \<open>db\<close>; an empty row counts as no row.\<close>
  "get_planning_rules db code =
     (case get_zone_rules code of Some r \<Rightarrow> Some r | None \<Rightarrow> db code)"

subsection \<open>Inputs and result of the calculator\<close>

datatype attr = AStr string | ANum real  \<comment> \<open>a non-null attribute value of a feature\<close>

record parcel =
  lot :: "string option"
  plan :: "string option"
  area_sqm :: "real option"

record zone =
  z_code :: "string option"
  z_category :: "string option"
  z_label :: "string option"
  z_description :: "string option"

record overlay_layer =
  layer_id :: int
  l_name :: "string option"
  l_label :: "string option"
  height_m :: "real option"
  attributes :: "(string \<times> attr) list"

record overlay_group =
  g_category :: "string option"
  g_layers :: "overlay_layer list"

record constraint_note =
  \<comment> \<open>One entry of \<open>constraints\<close>: its \<open>type\<close>, and the category and layer name that its
      icon and text are written from.\<close>
  note_type :: string
  note_category :: string
  note_layer :: string

datatype compliance_issue =
    LotBelowMinimum real real  \<comment> \<open>"Lot is \<open>area\<close> but zone requires min \<open>min_lot_size\<close>"\<close>
  | CheckFrontage real         \<comment> \<open>"Check frontage \<open>\<ge> min_frontage\<close> (unable to verify without survey)"\<close>

datatype error_text =
    NoLotAreaData  \<comment> \<open>"No lot area data - cannot calculate buildability"\<close>

record build_error =
  e_zone_code :: string
  e_zone_category :: string
  error :: error_text

record zone_out =
  zo_code :: string
  zo_category :: string
  zo_source :: string

record rules_out =
  ro_max_height_m :: "real option"
  ro_max_storeys :: "int option"
  ro_min_lot_size_sqm :: "real option"
  ro_max_site_cover_pct :: real
  ro_front_setback_m :: real
  ro_side_setback_m :: real
  ro_rear_setback_m :: real
  ro_min_frontage_m :: "real option"

record buildable_envelope =
  max_footprint_sqm :: real
  max_gfa_sqm :: real
  max_dwellings :: int
  buildable_area_after_setbacks_sqm :: real

record subdivision =
  can_subdivide :: bool
  max_new_lots :: int
  sub_min_lot_size_sqm :: "real option"

record uses =
  accepted :: "string list"
  assessable :: "string list"

record lot_compliance =
  compliant :: bool
  issues :: "compliance_issue list"

record buildability =
  b_zone :: zone_out
  b_rules :: rules_out
  b_envelope :: buildable_envelope
  b_subdivision :: subdivision
  b_uses :: uses
  b_constraints :: "constraint_note list"
  b_lot_compliance :: lot_compliance
  disclaimer :: string

subsection \<open>\<open>calculate_buildability\<close>\<close>

definition f_default :: "real option \<Rightarrow> real \<Rightarrow> real" where
  \<comment> \<open>The local helper \<open>f(v, default)\<close> with a default.\<close>
  "f_default v d = (case v of None \<Rightarrow> d | Some x \<Rightarrow> x)"

definition truthy_real :: "real option \<Rightarrow> real option" where
  \<comment> \<open>\<open>float(x) if x else None\<close>: \<open>None\<close> and zero are false.\<close>
  "truthy_real v = (case v of None \<Rightarrow> None | Some x \<Rightarrow> if x = 0 then None else Some x)"

definition max_footprint :: "real \<Rightarrow> real \<Rightarrow> real" where
  "max_footprint area max_site_cover = area * (max_site_cover / 100)"

definition side_length :: "real \<Rightarrow> real" where
  "side_length area = sqrt area"

definition buildable_width :: "real \<Rightarrow> real \<Rightarrow> real" where
  "buildable_width area side_setback = max 0 (side_length area - 2 * side_setback)"

definition buildable_depth :: "real \<Rightarrow> real \<Rightarrow> real \<Rightarrow> real" where
  "buildable_depth area front_setback rear_setback =
     max 0 (side_length area - front_setback - rear_setback)"

definition buildable_area_after_setbacks :: "real \<Rightarrow> real \<Rightarrow> real \<Rightarrow> real \<Rightarrow> real" where
  "buildable_area_after_setbacks area front_setback side_setback rear_setback =
     buildable_width area side_setback * buildable_depth area front_setback rear_setback"

definition effective_footprint :: "real \<Rightarrow> real \<Rightarrow> real \<Rightarrow> real \<Rightarrow> real \<Rightarrow> real" where
  "effective_footprint area max_site_cover front_setback side_setback rear_setback =
     min (max_footprint area max_site_cover)
         (buildable_area_after_setbacks area front_setback side_setback rear_setback)"

definition parse_density :: "string \<Rightarrow> (int \<times> int) option" where
  \<comment> \<open>The \<open>try\<close> block of the density rule: \<open>units\<close> and \<open>per_sqm\<close>, or \<open>None\<close> where
      \<open>int()\<close> raises \<open>ValueError\<close> or \<open>parts[1]\<close> raises \<open>IndexError\<close>.\<close>
  "parse_density s =
     (case split_per s of
        p0 # p1 # _ \<Rightarrow>
          (case py_int (strip p0) of
             None \<Rightarrow> None
           | Some units \<Rightarrow>
               (case py_int (filter isdigit p1) of
                  None \<Rightarrow> None
                | Some per_sqm \<Rightarrow> Some (units, per_sqm)))
      | _ \<Rightarrow> None)"

definition calc_max_dwellings :: "string option \<Rightarrow> real \<Rightarrow> int" where
  \<comment> \<open>The block "Max dwellings"; \<open>None\<close> and the empty string are the false density rules.\<close>
  "calc_max_dwellings density_rule area =
     (case density_rule of
        None \<Rightarrow> 1
      | Some s \<Rightarrow>
          if s = [] then 1
          else if str_in ''per'' s \<and> \<not> str_in ''lot'' (lower s) then
            (case parse_density s of
               Some (units, per_sqm) \<Rightarrow>
                 if per_sqm > 0 then max 1 (py_trunc (area / real_of_int per_sqm) * units) else 1
             | None \<Rightarrow> 1)
          else if str_in ''lot'' (lower s) then 1
          else if s = ''Caretaker only'' \<or> s = ''None'' then 0
          else 1)"

definition calc_can_subdivide :: "real \<Rightarrow> real \<Rightarrow> bool" where
  "calc_can_subdivide area min_lot_size = (if min_lot_size \<noteq> 0 then area \<ge> min_lot_size * 2 else False)"

definition calc_max_new_lots :: "real \<Rightarrow> real \<Rightarrow> int" where
  "calc_max_new_lots area min_lot_size =
     (if min_lot_size \<noteq> 0 \<and> min_lot_size > 0 then py_trunc (area / min_lot_size) else 0)"

definition layer_note :: "string \<Rightarrow> overlay_layer \<Rightarrow> constraint_note list" where
  \<comment> \<open>The \<open>if\<close>/\<open>elif\<close> chain on the group's category, for one layer.\<close>
  "layer_note cat layer =
     (let lname = (case l_label layer of Some l \<Rightarrow> l
                   | None \<Rightarrow> (case l_name layer of Some n \<Rightarrow> n | None \<Rightarrow> []));
          c = lower cat;
          note = (\<lambda>t. [\<lparr> note_type = t, note_category = cat, note_layer = lname \<rparr>])
      in if str_in ''bushfire'' c then note ''bushfire''
         else if str_in ''flood'' c then note ''flood''
         else if str_in ''heritage'' c \<or> str_in ''character'' c then note ''heritage''
         else if str_in ''landslide'' c then note ''landslide''
         else if str_in ''steep'' c \<or> str_in ''slope'' c then note ''steep_land''
         else if str_in ''biodiversity'' c \<or> str_in ''waterway'' c \<or> str_in ''wetland'' c
           then note ''biodiversity''
         else if str_in ''coastal'' c then note ''coastal''
         else if str_in ''acid'' c then note ''acid_sulfate''
         else if c \<noteq> ''height of buildings and structures'' then note ''other''
         else [])"

definition overlay_constraints :: "overlay_group list \<Rightarrow> constraint_note list" where
  "overlay_constraints overlays =
     concat (map (\<lambda>grp.
        concat (map (layer_note (case g_category grp of Some c \<Rightarrow> c | None \<Rightarrow> []))
                    (g_layers grp))) overlays)"

definition disclaimer_text :: string where
  "disclaimer_text =
     ''Indicative only based on Sunshine Coast Planning Scheme 2014. '' @
     ''Zone data sourced from SCC ArcGIS services. '' @
     ''Always verify with Sunshine Coast Council before making decisions.''"

datatype py_exception =
    ValueError      \<comment> \<open>\<open>math.sqrt\<close> of a negative number: "math domain error"\<close>
  | AttributeError  \<comment> \<open>a method called on \<open>None\<close>\<close>
  | TypeError       \<comment> \<open>an operation on \<open>None\<close> that needs a list\<close>

definition zone_code_of :: "zone option \<Rightarrow> string" where
  \<comment> \<open>\<open>zone.get("code", "Unknown") if zone else "Unknown"\<close>\<close>
  "zone_code_of zone =
     (case zone of None \<Rightarrow> ''Unknown''
      | Some z \<Rightarrow> (case z_code z of None \<Rightarrow> ''Unknown'' | Some c \<Rightarrow> c))"

definition zone_category_of :: "zone option \<Rightarrow> string" where
  \<comment> \<open>\<open>zone.get("category", "") if zone else ""\<close>\<close>
  "zone_category_of zone =
     (case zone of None \<Rightarrow> []
      | Some z \<Rightarrow> (case z_category z of None \<Rightarrow> [] | Some c \<Rightarrow> c))"

definition resolve_rules :: "rules option \<Rightarrow> string \<Rightarrow> rules" where
  \<comment> \<open>\<open>if not rules: rules = get_zone_rules(zone_code) or {}\<close>\<close>
  "resolve_rules rules_arg code =
     (case rules_arg of
        Some r \<Rightarrow> r
      | None \<Rightarrow> (case get_zone_rules code of Some r \<Rightarrow> r | None \<Rightarrow> empty_rules))"

definition build_report ::
  "real \<Rightarrow> string \<Rightarrow> string \<Rightarrow> rules \<Rightarrow> overlay_group list \<Rightarrow> real option \<Rightarrow> buildability" where
  \<comment> \<open>The part of \<open>calculate_buildability\<close> after the check of the area, for an area
      whose square root exists.\<close>
  "build_report area code cat rules overlays height_override =
     (let max_height = (case truthy_real height_override of
                          Some h \<Rightarrow> Some h | None \<Rightarrow> max_height_m rules);
          max_site_cover = f_default (max_site_cover_pct rules) 50;
          front_setback = f_default (front_setback_m rules) 6;
          side_setback = f_default (side_setback_m rules) 1.5;
          rear_setback = f_default (rear_setback_m rules) 6;
          min_lot_size = f_default (min_lot_size_sqm rules) 0;
          min_frontage = min_frontage_m rules;
          density_rule = max_dwelling_density rules;
          after_setbacks =
            buildable_area_after_setbacks area front_setback side_setback rear_setback;
          footprint =
            effective_footprint area max_site_cover front_setback side_setback rear_setback;
          storeys = (case max_storeys rules of
                       None \<Rightarrow> 1 | Some n \<Rightarrow> if n = 0 then 1 else n);
          max_gfa = footprint * real_of_int storeys;
          below = (min_lot_size \<noteq> 0 \<and> area < min_lot_size)
      in \<lparr> b_zone = \<lparr> zo_code = code, zo_category = cat, zo_source = ''scc_arcgis'' \<rparr>,
           b_rules = \<lparr> ro_max_height_m = truthy_real max_height,
                       ro_max_storeys = max_storeys rules,
                       ro_min_lot_size_sqm = truthy_real (Some min_lot_size),
                       ro_max_site_cover_pct = max_site_cover,
                       ro_front_setback_m = front_setback,
                       ro_side_setback_m = side_setback,
                       ro_rear_setback_m = rear_setback,
                       ro_min_frontage_m = truthy_real min_frontage \<rparr>,
           b_envelope = \<lparr> max_footprint_sqm = round1 footprint,
                          max_gfa_sqm = round1 max_gfa,
                          max_dwellings = calc_max_dwellings density_rule area,
                          buildable_area_after_setbacks_sqm = round1 after_setbacks \<rparr>,
           b_subdivision = \<lparr> can_subdivide = calc_can_subdivide area min_lot_size,
                             max_new_lots = calc_max_new_lots area min_lot_size,
                             sub_min_lot_size_sqm = truthy_real (Some min_lot_size) \<rparr>,
           b_uses = \<lparr> accepted = accepted_uses rules, assessable = assessable_uses rules \<rparr>,
           b_constraints = overlay_constraints overlays,
           b_lot_compliance =
             \<lparr> compliant = (\<not> below),
               issues = (if below then [LotBelowMinimum area min_lot_size] else []) @
                        (case truthy_real min_frontage of
                           Some m \<Rightarrow> [CheckFrontage m] | None \<Rightarrow> []) \<rparr>,
           disclaimer = disclaimer_text \<rparr>)"

definition calculate_buildability ::
  "parcel \<Rightarrow> zone option \<Rightarrow> rules option \<Rightarrow> overlay_group list \<Rightarrow> real option
     \<Rightarrow> py_exception + (build_error + buildability)" where
  \<comment> \<open>\<open>zone\<close> and \<open>rules\<close> are \<open>None\<close> for Python's \<open>None\<close> and for the empty dictionary, which
      take the same branch; \<open>overlays\<close> is \<open>[]\<close> for \<open>None\<close> and for the empty list.
      \<open>Inr (Inl e)\<close> is the returned dictionary with the \<open>error\<close> key, \<open>Inr (Inr r)\<close> the
      returned report, \<open>Inl\<close> an exception that leaves the function.\<close>
  "calculate_buildability parcel zone rules_arg overlays height_override =
     (let area = (case area_sqm parcel of None \<Rightarrow> 0 | Some a \<Rightarrow> a);
          code = zone_code_of zone;
          cat = zone_category_of zone;
          rules = resolve_rules rules_arg code
      in if area = 0 then
           Inr (Inl \<lparr> e_zone_code = code, e_zone_category = cat, error = NoLotAreaData \<rparr>)
         else if area < 0 then Inl ValueError
         else Inr (Inr (build_report area code cat rules overlays height_override)))"

definition report_of :: "py_exception + (build_error + buildability) \<Rightarrow> buildability option" where
  \<comment> \<open>The report, where one is returned.\<close>
  "report_of res = (case res of Inr (Inr r) \<Rightarrow> Some r | _ \<Rightarrow> None)"

section \<open>Provider queries\<close>

text \<open>
  Every low-level query helper (\<open>_query_layer\<close>, \<open>_query_da_layer\<close>,
  \<open>_query_infrastructure_layer\<close>, \<open>_query_scc_flood_by_lotplan\<close> and the loops of the flood
  study, easement, koala and ESA queries) has the same body:
  \<^verbatim>\<open>try: resp = await client.get(...); resp.raise_for_status(); data = resp.json();
       return data.get("features", [])
  except Exception: return []\<close>
  What the network answers to one request is a \<open>response\<close>: either one of the exceptions
  raised inside the \<open>try\<close> block, or a decoded JSON object. Of the object the model keeps its
  \<open>features\<close> member, which is absent, \<open>null\<close> or a list of features. A feature is given by
  its attributes, one record type per provider layer, and every attribute that the code reads
  is itself absent, \<open>null\<close> or a value of the type of its field. Outside the model are a
  \<open>features\<close> member that is neither \<open>null\<close> nor a list, a feature whose \<open>attributes\<close>
  member is not an object, and an attribute of another type than its field's.

  In the results of the helpers and of \<open>dict.get\<close> the value \<open>None\<close> of an \<open>option\<close> is
  Python's \<open>None\<close>. An exception that leaves a function is the \<open>Inl\<close> of its result.
\<close>

datatype query_failure =
    ConnectError          \<comment> \<open>transport error raised by \<open>client.get\<close>\<close>
  | TimeoutException      \<comment> \<open>the client's timeout\<close>
  | HTTPStatusError nat   \<comment> \<open>\<open>raise_for_status\<close>\<close>
  | JSONDecodeError       \<comment> \<open>\<open>resp.json()\<close> on a body that is not JSON\<close>
  | NotAnObject           \<comment> \<open>\<open>data.get\<close> on JSON that is not an object\<close>

datatype 'a member =
    Absent      \<comment> \<open>the object has no such member\<close>
  | Null        \<comment> \<open>the member is \<open>null\<close>\<close>
  | Present 'a

datatype 'f response = Raised query_failure | Body "'f list member"

definition get_features :: "'f response \<Rightarrow> 'f list option" where
  \<comment> \<open>The body shared by the helpers. Only a missing \<open>features\<close> member takes the default
      of \<open>data.get("features", [])\<close>: for a member that is \<open>null\<close> the helper returns
      \<open>None\<close>.\<close>
  "get_features r =
     (case r of
        Raised e \<Rightarrow> Some []
      | Body Absent \<Rightarrow> Some []
      | Body Null \<Rightarrow> None
      | Body (Present features) \<Rightarrow> Some features)"

definition query_layer :: "'f response \<Rightarrow> 'f list option" where
  \<comment> \<open>\<open>_query_layer\<close> of \<open>scc_planning.py\<close>, given the answer to its request.\<close>
  "query_layer r = get_features r"

definition query_da_layer :: "'f response \<Rightarrow> 'f list option" where
  \<comment> \<open>\<open>_query_da_layer\<close> of \<open>da_history.py\<close>, given the answer to its request.\<close>
  "query_da_layer r = get_features r"

subsection \<open>Python operations on the answers\<close>

definition get_or :: "'a member \<Rightarrow> 'a \<Rightarrow> 'a option" where
  \<comment> \<open>\<open>attrs.get(key, default)\<close>: the default stands in for a missing key only.\<close>
  "get_or m d = (case m of Absent \<Rightarrow> Some d | Null \<Rightarrow> None | Present v \<Rightarrow> Some v)"

definition get_member :: "'a member \<Rightarrow> 'a option" where
  \<comment> \<open>\<open>attrs.get(key)\<close>\<close>
  "get_member m = (case m of Absent \<Rightarrow> None | Null \<Rightarrow> None | Present v \<Rightarrow> Some v)"

definition str_strip :: "string option \<Rightarrow> py_exception + string" where
  \<comment> \<open>\<open>v.strip()\<close>: \<open>None\<close> has no attribute \<open>strip\<close>.\<close>
  "str_strip v = (case v of None \<Rightarrow> Inl AttributeError | Some s \<Rightarrow> Inr (strip s))"

definition list_add :: "'a list option \<Rightarrow> 'a list option \<Rightarrow> py_exception + 'a list" where
  \<comment> \<open>\<open>a + b\<close> on two results of a helper: \<open>+\<close> is not defined between \<open>None\<close> and a
      list, nor between \<open>None\<close> and \<open>None\<close>.\<close>
  "list_add a b =
     (case a of
        None \<Rightarrow> Inl TypeError
      | Some xs \<Rightarrow> (case b of None \<Rightarrow> Inl TypeError | Some ys \<Rightarrow> Inr (xs @ ys)))"

definition and_then :: "'e + 'a \<Rightarrow> ('a \<Rightarrow> 'e + 'b) \<Rightarrow> 'e + 'b" where
  \<comment> \<open>One statement after another: an exception of the first leaves the function.\<close>
  "and_then r f = (case r of Inl e \<Rightarrow> Inl e | Inr v \<Rightarrow> f v)"

definition str_or_empty :: "string option \<Rightarrow> string" where
  \<comment> \<open>\<open>d.get(key) or ""\<close> on a dictionary of the services' results\<close>
  "str_or_empty v = (case v of None \<Rightarrow> [] | Some s \<Rightarrow> s)"

definition py_str :: "string option \<Rightarrow> string" where
  \<comment> \<open>What an f-string writes for a string or \<open>None\<close>.\<close>
  "py_str v = (case v of None \<Rightarrow> ''None'' | Some s \<Rightarrow> s)"

section \<open>Planning service (\<open>app/services/scc_planning.py\<close>)\<close>

definition HEIGHT_LAYER :: int where
  "HEIGHT_LAYER = 50"

definition OVERLAY_LAYERS :: "(string \<times> (int \<times> string) list) list" where
  "OVERLAY_LAYERS =
   [ (''Acid Sulfate Soils'', [(0, ''Acid Sulfate Soils'')]),
     (''Airport Environs'',
      [(2, ''Sunshine Coast Airport''), (3, ''Public Safety Area''),
       (9, ''Obstacle Limitation Surface (OLS)''),
       (12, ''Australian Noise Exposure Forecast (ANEF) Level''),
       (13, ''Caloundra Aerodrome'')]),
     (''Biodiversity, Waterways and Wetlands'',
      [(24, ''Waterways''), (25, ''Declared Fish Habitat Area''),
       (26, ''Riparian Protection Area''), (27, ''Ramsar Wetlands''), (28, ''Wetlands''),
       (29, ''Waterbodies''), (30, ''Native Vegetation Area'')]),
     (''Bushfire Hazard'',
      [(32, ''High Bushfire Hazard Area''), (33, ''High Bushfire Hazard Area Buffer''),
       (34, ''Medium Bushfire Hazard Area''), (35, ''Medium Bushfire Hazard Area Buffer'')]),
     (''Coastal Protection'',
      [(37, ''Coastal Protection Area''), (38, ''Maritime Development Area'')]),
     (''Extractive Resources'',
      [(40, ''Transport Route and Separation Area''),
       (41, ''Local Resource / Processing Area''), (43, ''State Key Resource Area'')]),
     (''Flood Hazard'',
      [(46, ''Flooding and Inundation Area''), (47, ''Drainage Deficient Areas'')]),
     (''Height of Buildings and Structures'',
      [(50, ''Maximum Height of Buildings and Structures'')]),
     (''Heritage and Character Areas'',
      [(52, ''Local Heritage Place (Shipwreck)''), (53, ''State Heritage Place''),
       (54, ''Local Heritage Place''), (55, ''Land In Proximity to a Local Heritage Place''),
       (56, ''Character Building''), (57, ''Character Area'')]),
     (''Landslide Hazard'', [(58, ''Landslide Hazard Area'')]),
     (''Steep Land'', [(59, ''Steep Land (Slope)'')]),
     (''Regional Infrastructure'',
      [(61, ''Gas Pipeline Corridor and Buffer''),
       (62, ''High Voltage Electricity Line (Distribution)''),
       (63, ''High Voltage Electricity Line (Transmission)''),
       (64, ''Water Supply Pipeline and Buffer''),
       (65, ''Wastewater Treatment Plant and Buffer''),
       (66, ''Railway Corridor and Buffer''),
       (67, ''Dedicated Transit Corridor and Buffer''),
       (68, ''Major Road Corridor and Buffer'')]),
     (''Scenic Amenity'',
      [(69, ''Scenic Amenity''), (70, ''Scenic Route''), (71, ''Regional Inter-Urban Break'')]),
     (''Water Resource Catchments'',
      [(73, ''Water Resource Catchment Area''), (74, ''Water Supply Storage'')]) ]"

definition ALL_OVERLAY_LAYER_IDS :: "int list" where
  "ALL_OVERLAY_LAYER_IDS = concat (map (\<lambda>(cat, layers). map fst layers) OVERLAY_LAYERS)"

definition LAYER_INFO :: "int \<Rightarrow> (string \<times> string) option" where
  \<comment> \<open>The reverse map; a later assignment to the same key replaces an earlier one.\<close>
  "LAYER_INFO =
     map_of (rev (concat (map (\<lambda>(cat, layers). map (\<lambda>(lid, name). (lid, (cat, name))) layers)
                              OVERLAY_LAYERS)))"

record overlay_feature =
  \<comment> \<open>The attributes of one feature of an overlay layer: \<open>LABEL\<close>, a string,
      \<open>HeightRestrictionMetres\<close>, a number, and its other attributes with their values,
      \<open>None\<close> for \<open>null\<close>.\<close>
  f_LABEL :: "string member"
  f_HeightRestrictionMetres :: "real member"
  f_other :: "(string \<times> attr option) list"

record overlay_entry =
  \<comment> \<open>One \<open>entry\<close> of \<open>get_overlays\<close>. Its label is \<open>None\<close> for a \<open>LABEL\<close> that is
      \<open>null\<close>; \<open>e_height_m\<close> is \<open>None\<close> where the entry has no key \<open>height_m\<close>.\<close>
  e_layer_id :: int
  e_name :: string
  e_category :: string
  e_label :: "string option"
  e_attributes :: "(string \<times> attr) list"
  e_height_m :: "real option"

definition member_item :: "string \<Rightarrow> 'a member \<Rightarrow> ('a \<Rightarrow> attr) \<Rightarrow> (string \<times> attr option) list" where
  "member_item k m f =
     (case m of Absent \<Rightarrow> [] | Null \<Rightarrow> [(k, None)] | Present v \<Rightarrow> [(k, Some (f v))])"

definition feature_attrs :: "overlay_feature \<Rightarrow> (string \<times> attr option) list" where
  \<comment> \<open>\<open>attrs.items()\<close>\<close>
  "feature_attrs feat =
     member_item ''LABEL'' (f_LABEL feat) AStr @
     member_item ''HeightRestrictionMetres'' (f_HeightRestrictionMetres feat) ANum @
     f_other feat"

definition overlay_entry_of :: "int \<Rightarrow> overlay_feature \<Rightarrow> overlay_entry" where
  "overlay_entry_of lid feat =
     (let (cat, name) = (case LAYER_INFO lid of Some i \<Rightarrow> i | None \<Rightarrow> (''Unknown'', ''Unknown''))
      in \<lparr> e_layer_id = lid, e_name = name, e_category = cat,
           e_label = get_or (f_LABEL feat) name,
           e_attributes =
             map (\<lambda>(k, v). (k, the v))
               (filter (\<lambda>(k, v). k \<notin> set [''OBJECTID'', ''Shape'', ''Shape.STArea()'',
                                            ''Shape.STLength()''] \<and> v \<noteq> None)
                       (feature_attrs feat)),
           e_height_m = (if lid = HEIGHT_LAYER
                         then get_member (f_HeightRestrictionMetres feat) else None) \<rparr>)"

definition get_overlays_from :: "int list \<Rightarrow> (int \<Rightarrow> overlay_feature response) \<Rightarrow> overlay_entry list" where
  \<comment> \<open>The body of \<open>get_overlays\<close> over a list of layer ids; \<open>answers lid\<close> is what the
      overlay service answers for layer \<open>lid\<close>. The batches of eight only group the
      requests: the results are read in the order of the ids. \<open>if features:\<close> passes over
      an empty list and over \<open>None\<close>.\<close>
  "get_overlays_from ids answers =
     concat (map (\<lambda>lid. case query_layer (answers lid) of
                           None \<Rightarrow> []
                         | Some features \<Rightarrow> map (overlay_entry_of lid) features) ids)"

definition get_overlays :: "(int \<Rightarrow> overlay_feature response) \<Rightarrow> overlay_entry list" where
  "get_overlays answers = get_overlays_from ALL_OVERLAY_LAYER_IDS answers"

definition dedup_key :: "overlay_entry \<Rightarrow> string" where
  \<comment> \<open>The f-string \<open>"{item['layer_id']}|{item['label']}"\<close>\<close>
  "dedup_key item = str_int (e_layer_id item) @ ''|'' @ py_str (e_label item)"

record layer_entry =
  \<comment> \<open>One \<open>layer_entry\<close> of the grouped output. \<open>le_height_m\<close> is \<open>None\<close> and
      \<open>le_attributes\<close> is empty where the entry has no such key.\<close>
  le_layer_id :: int
  le_name :: string
  le_label :: "string option"
  le_height_m :: "real option"
  le_attributes :: "(string \<times> attr) list"

record category_group =
  cg_category :: string
  cg_layers :: "layer_entry list"

definition layer_entry_of :: "overlay_entry \<Rightarrow> layer_entry" where
  "layer_entry_of item =
     \<lparr> le_layer_id = e_layer_id item, le_name = e_name item, le_label = e_label item,
       le_height_m = e_height_m item,
       le_attributes = filter (\<lambda>(k, v). k \<notin> set [''DESCRIPT'', ''HEADING'', ''LABEL''])
                              (e_attributes item) \<rparr>"

definition add_to_group ::
  "string \<Rightarrow> layer_entry \<Rightarrow> (string \<times> layer_entry list) list
     \<Rightarrow> (string \<times> layer_entry list) list" where
  \<comment> \<open>\<open>groups[cat]["layers"].append(layer_entry)\<close>, a new category going to the end.\<close>
  "add_to_group cat layer groups =
     (if cat \<in> fst ` set groups
      then map (\<lambda>(c, ls). if c = cat then (c, ls @ [layer]) else (c, ls)) groups
      else groups @ [(cat, [layer])])"

fun group_loop ::
  "overlay_entry list \<Rightarrow> (string \<times> layer_entry list) list \<Rightarrow> string list
     \<Rightarrow> (string \<times> layer_entry list) list" where
  \<comment> \<open>The \<open>for item in raw\<close> loop, with \<open>groups\<close> and \<open>seen_keys\<close> as its state.\<close>
  "group_loop [] groups seen_keys = groups"
| "group_loop (item # raw) groups seen_keys =
     (if dedup_key item \<in> set seen_keys then group_loop raw groups seen_keys
      else group_loop raw (add_to_group (e_category item) (layer_entry_of item) groups)
                      (dedup_key item # seen_keys))"

definition group_overlays :: "overlay_entry list \<Rightarrow> category_group list" where
  "group_overlays raw =
     map (\<lambda>(cat, ls). \<lparr> cg_category = cat, cg_layers = ls \<rparr>) (group_loop raw [] [])"

definition get_overlays_grouped :: "(int \<Rightarrow> overlay_feature response) \<Rightarrow> category_group list" where
  "get_overlays_grouped answers = group_overlays (get_overlays answers)"

record zone_feature =
  \<comment> \<open>The attributes of a feature of the zoning layer that \<open>get_zone\<close> reads.\<close>
  zf_LABEL :: "string member"
  zf_HEADING :: "string member"
  zf_DESCRIPT :: "string member"

record zone_result =
  \<comment> \<open>The dictionary that \<open>get_zone\<close> returns; \<open>None\<close> is the value of a \<open>null\<close>
      attribute.\<close>
  zr_code :: "string option"
  zr_category :: string
  zr_label :: "string option"
  zr_description :: "string option"

definition get_zone :: "zone_feature response \<Rightarrow> py_exception + zone_result option" where
  \<comment> \<open>\<open>if not features: return None\<close> holds for an empty list and for \<open>None\<close>.\<close>
  "get_zone answer =
     (case query_layer answer of
        None \<Rightarrow> Inr None
      | Some [] \<Rightarrow> Inr None
      | Some (feat # _) \<Rightarrow>
          (let label = get_or (zf_LABEL feat) []
           in and_then (str_strip (get_or (zf_HEADING feat) [])) (\<lambda>heading.
                Inr (Some \<lparr> zr_code = label,
                            zr_category = (if heading \<noteq> [] then heading
                                           else ''Unknown Category''),
                            zr_label = label,
                            zr_description = get_or (zf_DESCRIPT feat) [] \<rparr>))))"

record height_restriction =
  hr_height_m :: "real option"
  hr_label :: "string option"
  hr_comment :: attr

definition or_empty :: "attr option option \<Rightarrow> attr" where
  \<comment> \<open>\<open>attrs.get(key) or ""\<close> on an attribute of any type: \<open>None\<close>, the empty string and
      zero are false.\<close>
  "or_empty v =
     (case v of
        None \<Rightarrow> AStr []
      | Some None \<Rightarrow> AStr []
      | Some (Some (AStr s)) \<Rightarrow> AStr s
      | Some (Some (ANum n)) \<Rightarrow> if n = 0 then AStr [] else ANum n)"

definition get_height_restriction :: "overlay_feature response \<Rightarrow> height_restriction option" where
  "get_height_restriction answer =
     (case query_layer answer of
        None \<Rightarrow> None
      | Some [] \<Rightarrow> None
      | Some (feat # _) \<Rightarrow>
          Some \<lparr> hr_height_m = get_member (f_HeightRestrictionMetres feat),
                 hr_label = get_or (f_LABEL feat) [],
                 hr_comment = or_empty (map_of (f_other feat) ''ComplexComment'') \<rparr>)"

section \<open>Development applications (\<open>app/services/da_history.py\<close>)\<close>

datatype case_id = IdInt int | IdStr string

definition id_truthy :: "case_id option \<Rightarrow> bool" where
  \<comment> \<open>Python's truth value of a \<open>ram_id\<close>: \<open>None\<close>, \<open>0\<close> and the empty string are false.\<close>
  "id_truthy i = (case i of None \<Rightarrow> False | Some (IdInt n) \<Rightarrow> n \<noteq> 0 | Some (IdStr s) \<Rightarrow> s \<noteq> [])"

record da_feature =
  \<comment> \<open>The attributes of one application feature that \<open>_process_da_features\<close> reads: an
      integer or a string for \<open>ram_id\<close>, integers for the two timestamps, strings for the
      others.\<close>
  a_ram_id :: "case_id member"
  a_description :: "string member"
  a_category_desc :: "string member"
  a_decision :: "string member"
  a_progress :: "string member"
  a_assessment_level :: "string member"
  a_d_date_rec :: "int member"
  a_d_decision_made :: "int member"
  a_land_parcel_relationship :: "string member"

record da =
  \<comment> \<open>One processed application. The two dates keep the timestamp that \<open>_format_date\<close>
      writes as a day; \<open>decision\<close> and \<open>category\<close> are \<open>None\<close> where a dictionary built
      elsewhere lacks them.\<close>
  ram_id :: "case_id option"
  description :: string
  category :: "string option"
  decision :: "string option"
  progress :: string
  assessment_level :: string
  date_received :: "int option"
  date_decided :: "int option"
  land_parcel_relationship :: string

definition format_date :: "int option \<Rightarrow> int option" where
  \<comment> \<open>\<open>_format_date\<close>: no date for a missing, \<open>null\<close> or zero timestamp, and the day of
      any other timestamp that \<open>datetime\<close> can represent.\<close>
  "format_date t = (case t of None \<Rightarrow> None | Some n \<Rightarrow> if n = 0 then None else Some n)"

definition da_of_feature :: "da_feature \<Rightarrow> py_exception + da" where
  \<comment> \<open>The dictionary \<open>da\<close> built for one feature, its entries evaluated in their order.\<close>
  "da_of_feature feat =
     and_then (str_strip (get_or (a_description feat) [])) (\<lambda>description_v.
     and_then (str_strip (get_or (a_category_desc feat) [])) (\<lambda>category_v.
     and_then (str_strip (get_or (a_decision feat) [])) (\<lambda>decision_v.
     and_then (str_strip (get_or (a_progress feat) [])) (\<lambda>progress_v.
     and_then (str_strip (get_or (a_assessment_level feat) [])) (\<lambda>assessment_level_v.
     and_then (str_strip (get_or (a_land_parcel_relationship feat) [])) (\<lambda>relationship_v.
       Inr \<lparr> ram_id = get_member (a_ram_id feat),
             description = description_v,
             category = Some category_v,
             decision = Some decision_v,
             progress = progress_v,
             assessment_level = assessment_level_v,
             date_received = format_date (get_member (a_d_date_rec feat)),
             date_decided = format_date (get_member (a_d_decision_made feat)),
             land_parcel_relationship = relationship_v \<rparr>))))))"

fun process_da_features :: "da_feature list \<Rightarrow> py_exception + da list" where
  \<comment> \<open>The loop of \<open>_process_da_features\<close>: the first feature that raises ends it.\<close>
  "process_da_features [] = Inr []"
| "process_da_features (feat # features) =
     (case da_of_feature feat of
        Inl e \<Rightarrow> Inl e
      | Inr d \<Rightarrow>
          (case process_da_features features of
             Inl e \<Rightarrow> Inl e
           | Inr processed \<Rightarrow>
               Inr (if \<not> id_truthy (ram_id d) \<and> description d = [] then processed
                    else d # processed)))"

definition is_in_progress :: "da \<Rightarrow> bool" where
  "is_in_progress d =
     (let progress_l = lower (progress d);
          decision_l = lower (str_or_empty (decision d))
      in if date_decided d = None \<and> date_received d \<noteq> None then True
         else if str_in ''progress'' progress_l \<or> str_in ''current'' progress_l
                 \<or> str_in ''pending'' progress_l then True
         else if decision_l = [] \<or> str_in ''pending'' decision_l
                 \<or> str_in ''current'' decision_l then True
         else False)"

definition join_comma :: "string list \<Rightarrow> string" where
  "join_comma parts =
     (case parts of [] \<Rightarrow> [] | p # ps \<Rightarrow> foldl (\<lambda>acc q. acc @ '', '' @ q) p ps)"

definition build_summary :: "nat \<Rightarrow> nat \<Rightarrow> nat \<Rightarrow> string" where
  "build_summary on_parcel_count nearby_count in_progress_count =
     (if on_parcel_count = 0 \<and> nearby_count = 0
      then ''No development applications found in area''
      else
        join_comma
          ((if on_parcel_count > 0 then [str_nat on_parcel_count @ '' on parcel''] else []) @
           (if nearby_count > 0 then [str_nat nearby_count @ '' nearby''] else [])) @
        (if in_progress_count > 0
         then '' ('' @ str_nat in_progress_count @ '' in progress)'' else []))"

definition remove_all :: "char \<Rightarrow> string \<Rightarrow> string \<Rightarrow> string" where
  \<comment> \<open>\<open>s.replace(c0 # rest, "")\<close>\<close>
  "remove_all c0 rest s = concat (split_aux c0 rest [] s)"

definition portal_link_of :: "string option \<Rightarrow> string option" where
  "portal_link_of lot_plan =
     (case lot_plan of
        None \<Rightarrow> None
      | Some lp \<Rightarrow>
          if lp \<noteq> [] \<and> CHR ''/'' \<in> set lp then
            (let lot_part = takeWhile (\<lambda>c. c \<noteq> CHR ''/'') lp;
                 plan_part = tl (dropWhile (\<lambda>c. c \<noteq> CHR ''/'') lp);
                 clean_plan = remove_all CHR ''S'' ''P'' (remove_all CHR ''R'' ''P'' plan_part)
             in Some (''https://developmenti.sunshinecoast.qld.gov.au/Home/FilterDirect?LotPlan=''
                      @ lot_part @ ''/'' @ clean_plan))
          else None)"

record da_history =
  on_parcel :: "da list"
  nearby :: "da list"
  on_parcel_count :: nat
  nearby_count :: nat
  dh_total_count :: nat
  on_parcel_in_progress :: nat
  nearby_in_progress :: nat
  total_in_progress :: nat
  portal_link :: "string option"
  summary :: string

definition DA_IN_PROGRESS :: int where "DA_IN_PROGRESS = 0"
definition DA_DECIDED_PAST :: int where "DA_DECIDED_PAST = 1"
definition BUILDING_IN_PROGRESS :: int where "BUILDING_IN_PROGRESS = 2"
definition BUILDING_DECIDED_PAST :: int where "BUILDING_DECIDED_PAST = 3"

definition get_da_history ::
  "(int \<Rightarrow> nat \<Rightarrow> da_feature response) \<Rightarrow> string option \<Rightarrow> py_exception + da_history" where
  \<comment> \<open>\<open>answers layer distance_m\<close> is what the application service answers for that layer
      and distance: 50 for the envelope of the parcel, 500 for the radius around it. The
      eight queries are gathered first; none of them raises. Then each pair of results is
      added and processed, one statement after the other.\<close>
  "get_da_history answers lot_plan =
     (let da_progress_on = query_da_layer (answers DA_IN_PROGRESS 50);
          da_past_on = query_da_layer (answers DA_DECIDED_PAST 50);
          building_progress_on = query_da_layer (answers BUILDING_IN_PROGRESS 50);
          building_past_on = query_da_layer (answers BUILDING_DECIDED_PAST 50);
          da_progress_nearby = query_da_layer (answers DA_IN_PROGRESS 500);
          da_past_nearby = query_da_layer (answers DA_DECIDED_PAST 500);
          building_progress_nearby = query_da_layer (answers BUILDING_IN_PROGRESS 500);
          building_past_nearby = query_da_layer (answers BUILDING_DECIDED_PAST 500)
      in
      and_then (and_then (list_add da_progress_on da_past_on) process_da_features)
        (\<lambda>on_parcel_das.
      and_then (and_then (list_add building_progress_on building_past_on) process_da_features)
        (\<lambda>on_parcel_building.
      and_then (and_then (list_add da_progress_nearby da_past_nearby) process_da_features)
        (\<lambda>nearby_das.
      and_then (and_then (list_add building_progress_nearby building_past_nearby)
                  process_da_features)
        (\<lambda>nearby_building.
          (let on_p = on_parcel_das @ on_parcel_building;
               on_parcel_ids = map ram_id (filter (\<lambda>d. id_truthy (ram_id d)) on_p);
               near = filter (\<lambda>d. ram_id d \<notin> set on_parcel_ids) (nearby_das @ nearby_building);
               on_parcel_ip = length (filter is_in_progress on_p);
               nearby_ip = length (filter is_in_progress near)
           in Inr \<lparr> on_parcel = on_p, nearby = near,
                    on_parcel_count = length on_p, nearby_count = length near,
                    dh_total_count = length on_p + length near,
                    on_parcel_in_progress = on_parcel_ip, nearby_in_progress = nearby_ip,
                    total_in_progress = on_parcel_ip + nearby_ip,
                    portal_link = portal_link_of lot_plan,
                    summary = build_summary (length on_p) (length near)
                                (on_parcel_ip + nearby_ip) \<rparr>))))))"

section \<open>Results of the flood, constraints and infrastructure services\<close>

text \<open>
  The dictionaries that \<open>get_flood_info\<close> (\<open>app/services/flood.py\<close>), \<open>get_constraints\<close>
  (\<open>app/services/constraints.py\<close>) and \<open>get_infrastructure\<close>
  (\<open>app/services/infrastructure.py\<close>) return, as the scorer reads them: without their
  summary texts, and for the infrastructure without pipe details and geometries.
\<close>

type_synonym str_attrs = "(string \<times> string) list"

record flood_info =
  has_flood_data :: bool
  flood_data :: "str_attrs option"
  flood_studies :: "str_attrs list"
  has_flood_studies :: bool
  lotplan_searched :: "string option"

record easement =
  ea_lotplan :: string
  ea_area :: string
  ea_name :: string
  ea_purpose :: string
  ea_in_favour :: string
  ea_status :: string

record covenant =
  co_lotplan :: string
  co_name :: string
  co_purpose :: string
  co_in_favour :: string
  co_status :: string

record koala_info =
  has_priority :: bool
  has_habitat :: bool
  has_core_habitat :: bool
  priority_count :: nat
  habitat_count :: nat
  core_habitat_count :: nat
  k_status :: "string option"
  k_significance :: string

record esa_info =
  has_category_a :: bool
  has_category_b :: bool
  category_a_count :: nat
  category_b_count :: nat
  esa_category :: "string option"
  esa_significance :: string
  esa_status :: "string option"

definition str_truthy :: "string option \<Rightarrow> bool" where
  \<comment> \<open>Python's truth value of a string or \<open>None\<close>.\<close>
  "str_truthy v = (case v of None \<Rightarrow> False | Some s \<Rightarrow> s \<noteq> [])"

record constraints =
  easements :: "easement list"
  covenants :: "covenant list"
  koala :: koala_info
  esa :: esa_info
  easements_count :: int
  covenants_count :: int
  has_constraints :: bool

record water_info =
  w_available :: bool
  w_mains_count :: nat
  hydrants_nearby :: nat

record sewer_info =
  s_available :: bool
  s_mains_count :: nat
  gravity_count :: nat
  pressure_count :: nat

record stormwater_info =
  sw_available :: bool
  nearby_waterways :: nat
  pipe_count :: nat
  pit_count :: nat
  culvert_count :: nat

record infrastructure =
  water :: water_info
  sewer :: sewer_info
  stormwater :: stormwater_info

section \<open>The aggregation of a site (\<open>app/routers/ai_summary.py\<close>)\<close>

text \<open>
  The router gathers seven tasks, one per category, with \<open>asyncio.gather\<close> and without
  \<open>return_exceptions\<close>: an exception that leaves a task leaves the gather. The zone,
  overlay, height and application tasks are the functions above, run on what their
  providers answer. The infrastructure, flood and constraints tasks are taken by their
  outcome, the dictionary returned or the exception raised.
\<close>

record providers =
  zoning_answer :: "zone_feature response"
  overlay_answers :: "int \<Rightarrow> overlay_feature response"
  height_answer :: "overlay_feature response"
  infrastructure_task :: "py_exception + infrastructure"
  application_answers :: "int \<Rightarrow> nat \<Rightarrow> da_feature response"
  flood_task :: "py_exception + flood_info"
  constraints_task :: "py_exception + constraints"

record site_snapshot =
  zone_data :: "zone_result option"
  overlays :: "category_group list"
  height_data :: "height_restriction option"
  infrastructure :: infrastructure
  da_history :: da_history
  flood_info :: flood_info
  constraints_data :: constraints

definition raised :: "py_exception + 'a \<Rightarrow> py_exception list" where
  "raised r = (case r of Inl e \<Rightarrow> [e] | Inr v \<Rightarrow> [])"

definition aggregate :: "providers \<Rightarrow> string option \<Rightarrow> py_exception list + site_snapshot" where
  \<comment> \<open>The gather of the seven tasks. With every task returning, the result is the seven
      dictionaries. Otherwise the gather raises: the result lists the exceptions of the
      failing tasks in the order of the tasks, and the one that is raised first in time
      leaves the gather. \<open>get_overlays_grouped\<close> and \<open>get_height_restriction\<close> have no
      statement that raises on the answers of the model.\<close>
  "aggregate p lot_plan =
     (let zone_r = get_zone (zoning_answer p);
          infrastructure_r = infrastructure_task p;
          da_history_r = get_da_history (application_answers p) lot_plan;
          flood_r = flood_task p;
          constraints_r = constraints_task p;
          exceptions = raised zone_r @ raised infrastructure_r @ raised da_history_r
                       @ raised flood_r @ raised constraints_r
      in if exceptions \<noteq> [] then Inl exceptions
         else Inr \<lparr> zone_data = projr zone_r,
                    overlays = get_overlays_grouped (overlay_answers p),
                    height_data = get_height_restriction (height_answer p),
                    infrastructure = projr infrastructure_r,
                    da_history = projr da_history_r,
                    flood_info = projr flood_r,
                    constraints_data = projr constraints_r \<rparr>)"

section \<open>Site analysis (\<open>app/services/ai_summary.py\<close>)\<close>

subsection \<open>\<open>_calculate_constraints_score\<close>\<close>

type_synonym score_state = "int \<times> string list"  \<comment> \<open>\<open>score\<close> and \<open>deductions\<close>\<close>

definition deduct :: "int \<Rightarrow> string \<Rightarrow> score_state \<Rightarrow> score_state" where
  \<comment> \<open>\<open>score -= amount; deductions.append(text)\<close>\<close>
  "deduct amount text st = (fst st - amount, snd st @ [text])"

definition minus_text :: "string \<Rightarrow> int \<Rightarrow> string" where
  \<comment> \<open>The f-string \<open>"reason (-{amount})"\<close>\<close>
  "minus_text reason amount = reason @ '' (-'' @ str_int amount @ '')''"

definition score_group :: "score_state \<Rightarrow> overlay_group \<Rightarrow> score_state" where
  \<comment> \<open>The body of the loop over the overlay groups.\<close>
  "score_group st grp =
     (let cat = lower (str_or_empty (g_category grp));
          count = int (length (g_layers grp))
      in if str_in ''bushfire'' cat then
           deduct (12 * count) (minus_text ''Bushfire overlay'' (12 * count)) st
         else if str_in ''flood'' cat then
           deduct (15 * count) (minus_text ''Flood overlay'' (15 * count)) st
         else if str_in ''heritage'' cat \<or> str_in ''character'' cat then
           deduct (8 * count) (minus_text ''Heritage/Character'' (8 * count)) st
         else if str_in ''landslide'' cat then deduct 15 ''Landslide hazard (-15)'' st
         else if str_in ''steep'' cat \<or> str_in ''slope'' cat then deduct 10 ''Steep land (-10)'' st
         else if str_in ''biodiversity'' cat \<or> str_in ''waterway'' cat \<or> str_in ''wetland'' cat then
           deduct (10 * count) (minus_text ''Biodiversity/Waterway'' (10 * count)) st
         else if str_in ''coastal'' cat then
           deduct (10 * count) (minus_text ''Coastal protection'' (10 * count)) st
         else if str_in ''acid'' cat then deduct 5 ''Acid sulfate soils (-5)'' st
         else if str_in ''scenic'' cat then deduct 5 ''Scenic amenity (-5)'' st
         else st)"

definition score_flood :: "flood_info option \<Rightarrow> score_state \<Rightarrow> score_state" where
  "score_flood flood st =
     (case flood of
        None \<Rightarrow> st
      | Some fi \<Rightarrow> if has_flood_data fi then deduct 15 ''Direct flood mapping (-15)'' st else st)"

definition score_constraints :: "constraints option \<Rightarrow> score_state \<Rightarrow> score_state" where
  "score_constraints cons st =
     (case cons of
        None \<Rightarrow> st
      | Some c \<Rightarrow>
          (let ease_count = easements_count c;
               cov_count = covenants_count c;
               st1 = (if ease_count > 0
                      then deduct (5 * ease_count)
                             (minus_text (''Easements ('' @ str_int ease_count @ '')'') (5 * ease_count)) st
                      else st);
               st2 = (if cov_count > 0
                      then deduct (5 * cov_count)
                             (minus_text (''Covenants ('' @ str_int cov_count @ '')'') (5 * cov_count)) st1
                      else st1);
               st3 = (if str_truthy (k_status (koala c))
                      then deduct 10 ''Koala habitat (-10)'' st2 else st2)
           in if str_truthy (esa_status (esa c)) then deduct 10 ''ESA area (-10)'' st3 else st3))"

definition score_infrastructure :: "infrastructure option \<Rightarrow> score_state \<Rightarrow> score_state" where
  "score_infrastructure infra st =
     (case infra of
        None \<Rightarrow> st
      | Some i \<Rightarrow>
          (let st1 = (if \<not> w_available (water i)
                      then deduct 8 ''No reticulated water (-8)'' st else st)
           in if \<not> s_available (sewer i) then deduct 8 ''No reticulated sewer (-8)'' st1 else st1))"

definition lot_compliant_of :: "(build_error + buildability) \<Rightarrow> bool" where
  \<comment> \<open>\<open>buildability.get("lot_compliance", {}).get("compliant", True)\<close>: the dictionary with
      the \<open>error\<close> key has no \<open>lot_compliance\<close>.\<close>
  "lot_compliant_of b = (case b of Inl e \<Rightarrow> True | Inr r \<Rightarrow> compliant (b_lot_compliance r))"

definition score_buildability :: "(build_error + buildability) option \<Rightarrow> score_state \<Rightarrow> score_state" where
  "score_buildability b st =
     (case b of
        None \<Rightarrow> st
      | Some r \<Rightarrow> if \<not> lot_compliant_of r then deduct 5 ''Lot non-compliant (-5)'' st else st)"

definition final_state ::
  "overlay_group list \<Rightarrow> flood_info option \<Rightarrow> constraints option \<Rightarrow> infrastructure option
     \<Rightarrow> (build_error + buildability) option \<Rightarrow> score_state" where
  \<comment> \<open>\<open>score\<close> and \<open>deductions\<close> when the \<open>return\<close> is reached.\<close>
  "final_state ovs flood cons infra b =
     score_buildability b
       (score_infrastructure infra
          (score_constraints cons
             (score_flood flood (foldl score_group (100, []) ovs))))"

definition calculate_constraints_score ::
  "overlay_group list \<Rightarrow> flood_info option \<Rightarrow> constraints option \<Rightarrow> infrastructure option
     \<Rightarrow> (build_error + buildability) option \<Rightarrow> int \<times> string list" where
  \<comment> \<open>Each dictionary argument is \<open>None\<close> for Python's \<open>None\<close> and for the empty dictionary;
      \<open>ovs\<close> is \<open>[]\<close> for \<open>None\<close> and for the empty list.\<close>
  "calculate_constraints_score ovs flood cons infra b =
     (let st = final_state ovs flood cons infra b
      in (max 1 (min 100 (fst st)), snd st))"

record scorer_input =
  in_overlays :: "overlay_group list"
  in_flood_info :: "flood_info option"
  in_constraints :: "constraints option"
  in_infrastructure :: "infrastructure option"
  in_buildability :: "(build_error + buildability) option"

definition score_of :: "scorer_input \<Rightarrow> int" where
  "score_of x =
     fst (calculate_constraints_score (in_overlays x) (in_flood_info x) (in_constraints x)
            (in_infrastructure x) (in_buildability x))"

definition deduction_category :: "string option \<Rightarrow> bool" where
  \<comment> \<open>The categories for which \<open>score_group\<close> takes one of its deduction branches.\<close>
  "deduction_category cat =
     (let c = lower (str_or_empty cat)
      in list_ex (\<lambda>w. str_in w c)
           [''bushfire'', ''flood'', ''heritage'', ''character'', ''landslide'', ''steep'',
            ''slope'', ''biodiversity'', ''waterway'', ''wetland'', ''coastal'', ''acid'',
            ''scenic''])"

inductive extends :: "scorer_input \<Rightarrow> scorer_input \<Rightarrow> bool" where
  \<comment> \<open>\<open>extends x y\<close>: \<open>y\<close> is \<open>x\<close> with one more deduction-triggering element.\<close>
  more_layer:
    "deduction_category (g_category g) \<Longrightarrow> in_overlays x = pre @ g # post \<Longrightarrow>
     extends x (x \<lparr> in_overlays := pre @ g \<lparr> g_layers := g_layers g @ [l] \<rparr> # post \<rparr>)"
| more_group:
    "deduction_category (g_category g) \<Longrightarrow> in_overlays x = pre @ post \<Longrightarrow>
     extends x (x \<lparr> in_overlays := pre @ g # post \<rparr>)"
| more_easement:
    "in_constraints x = Some c \<Longrightarrow>
     extends x (x \<lparr> in_constraints := Some (c \<lparr> easements_count := easements_count c + 1 \<rparr>) \<rparr>)"
| more_covenant:
    "in_constraints x = Some c \<Longrightarrow>
     extends x (x \<lparr> in_constraints := Some (c \<lparr> covenants_count := covenants_count c + 1 \<rparr>) \<rparr>)"
| first_constraints:
    "in_constraints x = None \<Longrightarrow> extends x (x \<lparr> in_constraints := Some c \<rparr>)"
| flood_present:
    "in_flood_info x = Some fi \<Longrightarrow> \<not> has_flood_data fi \<Longrightarrow>
     extends x (x \<lparr> in_flood_info := Some (fi \<lparr> has_flood_data := True \<rparr>) \<rparr>)"
| first_flood:
    "in_flood_info x = None \<Longrightarrow> extends x (x \<lparr> in_flood_info := Some fi \<rparr>)"
| water_missing:
    "in_infrastructure x = Some i \<Longrightarrow>
     extends x (x \<lparr> in_infrastructure :=
                      Some (i \<lparr> water := (water i) \<lparr> w_available := False \<rparr> \<rparr>) \<rparr>)"
| sewer_missing:
    "in_infrastructure x = Some i \<Longrightarrow>
     extends x (x \<lparr> in_infrastructure :=
                      Some (i \<lparr> sewer := (sewer i) \<lparr> s_available := False \<rparr> \<rparr>) \<rparr>)"
| first_infrastructure:
    "in_infrastructure x = None \<Longrightarrow> extends x (x \<lparr> in_infrastructure := Some i \<rparr>)"
| lot_non_compliant:
    "in_buildability x = Some (Inr r) \<Longrightarrow>
     extends x (x \<lparr> in_buildability :=
                      Some (Inr (r \<lparr> b_lot_compliance :=
                                         (b_lot_compliance r) \<lparr> compliant := False \<rparr> \<rparr>)) \<rparr>)"
| first_buildability:
    "in_buildability x = None \<Longrightarrow> extends x (x \<lparr> in_buildability := Some b \<rparr>)"

code_pred extends .

subsection \<open>\<open>_analyze_da_precedent\<close>\<close>

datatype assessment =
    NoPrecedentData       \<comment> \<open>"No precedent data available in area"\<close>
  | StrongApprovalTrend   \<comment> \<open>"Strong approval trend - all applications in the area have been approved"\<close>
  | PositiveApprovalTrend \<comment> \<open>"Positive approval trend - majority of applications approved"\<close>
  | ChallengingArea       \<comment> \<open>"Challenging area - more refusals than approvals"\<close>
  | MixedResults          \<comment> \<open>"Mixed results - assess carefully against planning scheme"\<close>

record counts =
  approved :: nat
  refused :: nat
  in_progress :: nat
  lapsed :: nat
  categories :: "(string \<times> nat) list"

definition count_category :: "string \<Rightarrow> (string \<times> nat) list \<Rightarrow> (string \<times> nat) list" where
  \<comment> \<open>\<open>categories[category] = categories.get(category, 0) + 1\<close>, a new key going to the end.\<close>
  "count_category cat cats =
     (if cat \<in> fst ` set cats
      then map (\<lambda>(k, n). if k = cat then (k, n + 1) else (k, n)) cats
      else cats @ [(cat, 1)])"

definition count_da :: "counts \<Rightarrow> da \<Rightarrow> counts" where
  \<comment> \<open>The body of the loop over all applications.\<close>
  "count_da c d =
     (let dec = lower (str_or_empty (decision d));
          cat = (case category d of None \<Rightarrow> ''Other'' | Some k \<Rightarrow> k);
          c' = (if dec \<noteq> [] \<and> str_in ''approved'' dec then c \<lparr> approved := approved c + 1 \<rparr>
                else if dec \<noteq> [] \<and> str_in ''refused'' dec then c \<lparr> refused := refused c + 1 \<rparr>
                else if dec \<noteq> [] \<and> str_in ''lapsed'' dec then c \<lparr> lapsed := lapsed c + 1 \<rparr>
                else c \<lparr> in_progress := in_progress c + 1 \<rparr>)
      in c' \<lparr> categories := count_category cat (categories c') \<rparr>)"

definition assess :: "nat \<Rightarrow> nat \<Rightarrow> nat \<Rightarrow> assessment \<times> string" where
  \<comment> \<open>The \<open>if\<close>/\<open>elif\<close> chain "Assess": \<open>assessment\<close> and \<open>outlook\<close>.\<close>
  "assess n_total appr refu =
     (if n_total = 0 then (NoPrecedentData, ''neutral'')
      else if refu = 0 \<and> appr > 0 then (StrongApprovalTrend, ''positive'')
      else if appr > refu * 2 then (PositiveApprovalTrend, ''positive'')
      else if refu > appr then (ChallengingArea, ''negative'')
      else (MixedResults, ''neutral''))"

record precedent =
  approved_count :: nat
  refused_count :: nat
  in_progress_count :: nat
  lapsed_count :: nat
  total_count :: nat
  pr_on_parcel_count :: nat
  pr_nearby_count :: nat
  top_categories :: "(string \<times> nat) list"
  pr_assessment :: assessment
  outlook :: string

definition analyze_da_precedent :: "da list \<Rightarrow> da list \<Rightarrow> precedent" where
  \<comment> \<open>\<open>_analyze_da_precedent\<close>, given the \<open>on_parcel\<close> and \<open>nearby\<close> lists of its argument
      (\<open>[]\<close> where the key is missing).\<close>
  "analyze_da_precedent on_p near =
     (let all_das = on_p @ near;
          c = foldl count_da \<lparr> approved = 0, refused = 0, in_progress = 0, lapsed = 0,
                               categories = [] \<rparr> all_das;
          n_total = approved c + refused c + lapsed c + in_progress c;
          (a, out) = assess n_total (approved c) (refused c)
      in \<lparr> approved_count = approved c, refused_count = refused c,
           in_progress_count = in_progress c, lapsed_count = lapsed c, total_count = n_total,
           pr_on_parcel_count = length on_p, pr_nearby_count = length near,
           top_categories = take 5 (sort_key (\<lambda>(k, n). - int n) (categories c)),
           pr_assessment = a, outlook = out \<rparr>)"

section \<open>Inputs named in the properties\<close>

definition no_deduction_input :: "scorer_input \<Rightarrow> bool" where
  \<comment> \<open>Nothing to deduct: no overlay group, no flood mapping, no easement, covenant, koala
      or ESA status, water and sewer available (or no infrastructure data), lot compliant.\<close>
  "no_deduction_input x =
     (in_overlays x = [] \<and>
      (case in_flood_info x of None \<Rightarrow> True | Some fi \<Rightarrow> \<not> has_flood_data fi) \<and>
      (case in_constraints x of
         None \<Rightarrow> True
       | Some c \<Rightarrow> easements_count c = 0 \<and> covenants_count c = 0 \<and>
                   \<not> str_truthy (k_status (koala c)) \<and> \<not> str_truthy (esa_status (esa c))) \<and>
      (case in_infrastructure x of
         None \<Rightarrow> True
       | Some i \<Rightarrow> w_available (water i) \<and> s_available (sewer i)) \<and>
      (case in_buildability x of None \<Rightarrow> True | Some b \<Rightarrow> lot_compliant_of b))"

definition bushfire_layer :: overlay_layer where
  "bushfire_layer =
     \<lparr> layer_id = 32, l_name = Some ''High Bushfire Hazard Area'', l_label = Some ''High'',
       height_m = None, attributes = [] \<rparr>"

definition bushfire_group :: overlay_group where
  "bushfire_group = \<lparr> g_category = Some ''Bushfire Hazard'', g_layers = [bushfire_layer] \<rparr>"

definition serviced :: infrastructure where
  "serviced =
     \<lparr> water = \<lparr> w_available = True, w_mains_count = 1, hydrants_nearby = 0 \<rparr>,
       sewer = \<lparr> s_available = True, s_mains_count = 1, gravity_count = 1, pressure_count = 0 \<rparr>,
       stormwater = \<lparr> sw_available = False, nearby_waterways = 0, pipe_count = 0, pit_count = 0,
                      culvert_count = 0 \<rparr> \<rparr>"

definition clear_site :: scorer_input where
  "clear_site =
     \<lparr> in_overlays = [], in_flood_info = None, in_constraints = None,
       in_infrastructure = Some serviced, in_buildability = None \<rparr>"

definition bushfire_site :: scorer_input where
  "bushfire_site = clear_site \<lparr> in_overlays := [bushfire_group] \<rparr>"

definition da_decided :: "string \<Rightarrow> da" where
  \<comment> \<open>An application with the given decision text.\<close>
  "da_decided dec =
     \<lparr> ram_id = None, description = ''Material change of use'', category = Some ''MCU'',
       decision = Some dec, progress = ''Decided'', assessment_level = ''Code'',
       date_received = None, date_decided = None, land_parcel_relationship = [] \<rparr>"

definition parcel_of_area :: "real \<Rightarrow> parcel" where
  "parcel_of_area a = \<lparr> lot = Some ''12'', plan = Some ''RP901532'', area_sqm = Some a \<rparr>"

definition zone_named :: "string \<Rightarrow> zone" where
  \<comment> \<open>A zone as \<open>get_zone\<close> returns it for the label \<open>c\<close>.\<close>
  "zone_named c =
     \<lparr> z_code = Some c, z_category = Some ''Unknown Category'', z_label = Some c,
       z_description = Some [] \<rparr>"

definition no_db_rules :: "string \<Rightarrow> rules option" where
  \<comment> \<open>A \<open>planning_rules\<close> table without a row for any zone code.\<close>
  "no_db_rules c = None"

definition reported_footprint :: "py_exception + (build_error + buildability) \<Rightarrow> real option" where
  "reported_footprint res = map_option (\<lambda>r. max_footprint_sqm (b_envelope r)) (report_of res)"

definition reported_dwellings :: "py_exception + (build_error + buildability) \<Rightarrow> int option" where
  "reported_dwellings res = map_option (\<lambda>r. max_dwellings (b_envelope r)) (report_of res)"

definition reported_subdivision ::
  "py_exception + (build_error + buildability) \<Rightarrow> (bool \<times> int) option" where
  \<comment> \<open>\<open>can_subdivide\<close> and \<open>max_new_lots\<close> of the report.\<close>
  "reported_subdivision res =
     map_option (\<lambda>r. (can_subdivide (b_subdivision r), max_new_lots (b_subdivision r)))
                (report_of res)"

definition layer_key :: "layer_entry \<Rightarrow> string" where
  \<comment> \<open>The deduplication key, read from a layer entry of the grouped output.\<close>
  "layer_key l = str_int (le_layer_id l) @ ''|'' @ py_str (le_label l)"

definition example_overlay_feature :: overlay_feature where
  "example_overlay_feature =
     \<lparr> f_LABEL = Present ''High'', f_HeightRestrictionMetres = Absent, f_other = [] \<rparr>"

definition example_overlay_service :: "int \<Rightarrow> overlay_feature response" where
  \<comment> \<open>The bushfire layer 32 answers with the same feature twice; every other layer times out.\<close>
  "example_overlay_service lid =
     (if lid = 32 then Body (Present [example_overlay_feature, example_overlay_feature])
      else Raised TimeoutException)"

definition example_da_feature :: da_feature where
  "example_da_feature =
     \<lparr> a_ram_id = Present (IdStr ''MCU21/0042''), a_description = Present ''Dual occupancy'',
       a_category_desc = Present ''Material Change of Use'', a_decision = Present ''Approved'',
       a_progress = Present ''Decided'', a_assessment_level = Present ''Code'',
       a_d_date_rec = Absent, a_d_decision_made = Absent,
       a_land_parcel_relationship = Absent \<rparr>"

definition example_da :: da where
  \<comment> \<open>The application that \<open>_process_da_features\<close> makes of \<open>example_da_feature\<close>.\<close>
  "example_da =
     \<lparr> ram_id = Some (IdStr ''MCU21/0042''), description = ''Dual occupancy'',
       category = Some ''Material Change of Use'', decision = Some ''Approved'',
       progress = ''Decided'', assessment_level = ''Code'',
       date_received = None, date_decided = None, land_parcel_relationship = [] \<rparr>"

definition neighbour_da_feature :: da_feature where
  "neighbour_da_feature =
     \<lparr> a_ram_id = Present (IdStr ''MCU19/0310''), a_description = Present ''Dwelling house'',
       a_category_desc = Present ''Material Change of Use'', a_decision = Present ''Refused'',
       a_progress = Present ''Decided'', a_assessment_level = Present ''Code'',
       a_d_date_rec = Absent, a_d_decision_made = Absent,
       a_land_parcel_relationship = Absent \<rparr>"

definition neighbour_da :: da where
  "neighbour_da =
     \<lparr> ram_id = Some (IdStr ''MCU19/0310''), description = ''Dwelling house'',
       category = Some ''Material Change of Use'', decision = Some ''Refused'',
       progress = ''Decided'', assessment_level = ''Code'',
       date_received = None, date_decided = None, land_parcel_relationship = [] \<rparr>"

definition example_da_service :: "int \<Rightarrow> nat \<Rightarrow> da_feature response" where
  \<comment> \<open>The layer of decided applications answers with one application for the parcel, and
      with the same application and a neighbour's for the 500 m radius; the other layers
      have no \<open>features\<close> member.\<close>
  "example_da_service layer distance_m =
     (if layer = DA_DECIDED_PAST then
        (if distance_m = 50 then Body (Present [example_da_feature])
         else Body (Present [example_da_feature, neighbour_da_feature]))
      else Body Absent)"

definition example_da_history :: da_history where
  \<comment> \<open>The application on the parcel once, and the neighbour's nearby.\<close>
  "example_da_history =
     \<lparr> on_parcel = [example_da], nearby = [neighbour_da], on_parcel_count = 1,
       nearby_count = 1, dh_total_count = 2, on_parcel_in_progress = 0,
       nearby_in_progress = 0, total_in_progress = 0, portal_link = None,
       summary = ''1 on parcel, 1 nearby'' \<rparr>"

definition no_da_history :: da_history where
  "no_da_history =
     \<lparr> on_parcel = [], nearby = [], on_parcel_count = 0, nearby_count = 0, dh_total_count = 0,
       on_parcel_in_progress = 0, nearby_in_progress = 0, total_in_progress = 0,
       portal_link = None, summary = ''No development applications found in area'' \<rparr>"

definition no_flood_info :: flood_info where
  "no_flood_info =
     \<lparr> has_flood_data = False, flood_data = None, flood_studies = [],
       has_flood_studies = False, lotplan_searched = None \<rparr>"

definition no_constraints :: constraints where
  "no_constraints =
     \<lparr> easements = [], covenants = [],
       koala = \<lparr> has_priority = False, has_habitat = False, has_core_habitat = False,
                 priority_count = 0, habitat_count = 0, core_habitat_count = 0,
                 k_status = None, k_significance = ''none'' \<rparr>,
       esa = \<lparr> has_category_a = False, has_category_b = False, category_a_count = 0,
               category_b_count = 0, esa_category = None, esa_significance = ''none'',
               esa_status = None \<rparr>,
       easements_count = 0, covenants_count = 0, has_constraints = False \<rparr>"

definition example_zone_feature :: zone_feature where
  "example_zone_feature =
     \<lparr> zf_LABEL = Present ''Low Density Residential Zone'',
       zf_HEADING = Present ''Residential Zones Category'',
       zf_DESCRIPT = Present ''Low density residential'' \<rparr>"

definition example_zone :: zone_result where
  "example_zone =
     \<lparr> zr_code = Some ''Low Density Residential Zone'',
       zr_category = ''Residential Zones Category'',
       zr_label = Some ''Low Density Residential Zone'',
       zr_description = Some ''Low density residential'' \<rparr>"

definition example_providers :: providers where
  \<comment> \<open>One aggregation in which every provider answers.\<close>
  "example_providers =
     \<lparr> zoning_answer = Body (Present [example_zone_feature]),
       overlay_answers = example_overlay_service,
       height_answer = Body (Present []),
       infrastructure_task = Inr serviced,
       application_answers = example_da_service,
       flood_task = Inr no_flood_info,
       constraints_task = Inr no_constraints \<rparr>"

definition example_snapshot :: site_snapshot where
  \<comment> \<open>The seven results of that aggregation.\<close>
  "example_snapshot =
     \<lparr> zone_data = Some example_zone,
       overlays =
         [\<lparr> cg_category = ''Bushfire Hazard'',
            cg_layers = [\<lparr> le_layer_id = 32, le_name = ''High Bushfire Hazard Area'',
                           le_label = Some ''High'', le_height_m = None,
                           le_attributes = [] \<rparr>] \<rparr>],
       height_data = None,
       infrastructure = serviced,
       da_history = example_da_history,
       flood_info = no_flood_info,
       constraints_data = no_constraints \<rparr>"

definition unreachable_da_service :: "int \<Rightarrow> nat \<Rightarrow> da_feature response" where
  \<comment> \<open>No request to the application service gets through.\<close>
  "unreachable_da_service layer distance_m = Raised ConnectError"

definition null_features_da_service :: "int \<Rightarrow> nat \<Rightarrow> da_feature response" where
  \<comment> \<open>As \<open>example_da_service\<close>, but the layer of applications in progress answers the
      request for the parcel with the body \<^verbatim>\<open>{"features": null}\<close>.\<close>
  "null_features_da_service layer distance_m =
     (if layer = DA_IN_PROGRESS \<and> distance_m = 50 then Body Null
      else example_da_service layer distance_m)"

definition undecided_da_feature :: da_feature where
  \<comment> \<open>An application in progress, with \<open>null\<close> for the decision it does not have yet.\<close>
  "undecided_da_feature =
     \<lparr> a_ram_id = Present (IdStr ''MCU24/0107''), a_description = Present ''Multiple dwelling'',
       a_category_desc = Present ''Material Change of Use'', a_decision = Null,
       a_progress = Present ''In Progress'', a_assessment_level = Present ''Impact'',
       a_d_date_rec = Present 1717200000000, a_d_decision_made = Null,
       a_land_parcel_relationship = Absent \<rparr>"

definition undecided_da_service :: "int \<Rightarrow> nat \<Rightarrow> da_feature response" where
  \<comment> \<open>As \<open>example_da_service\<close>, with \<open>undecided_da_feature\<close> in the layer of applications
      in progress.\<close>
  "undecided_da_service layer distance_m =
     (if layer = DA_IN_PROGRESS then Body (Present [undecided_da_feature])
      else example_da_service layer distance_m)"

definition null_heading_zone_feature :: zone_feature where
  \<comment> \<open>The zone of the example with \<open>null\<close> for its \<open>HEADING\<close>.\<close>
  "null_heading_zone_feature = example_zone_feature \<lparr> zf_HEADING := Null \<rparr>"

section \<open>Properties of the constraint scorer\<close>

lemma score_of_eq:
  "score_of x = max 1 (min 100 (fst (final_state (in_overlays x) (in_flood_info x)
       (in_constraints x) (in_infrastructure x) (in_buildability x))))"
  by (simp add: score_of_def calculate_constraints_score_def Let_def)

lemma score_baseline:
  assumes "no_deduction_input x"
  shows "score_of x = 100"
proof -
  have o: "in_overlays x = []"
    using assms by (simp add: no_deduction_input_def)
  have f: "score_flood (in_flood_info x) st = st" for st
    using assms by (cases "in_flood_info x") (simp_all add: no_deduction_input_def score_flood_def)
  have c: "score_constraints (in_constraints x) st = st" for st
    using assms
    by (cases "in_constraints x") (simp_all add: no_deduction_input_def score_constraints_def)
  have i: "score_infrastructure (in_infrastructure x) st = st" for st
    using assms
    by (cases "in_infrastructure x")
       (simp_all add: no_deduction_input_def score_infrastructure_def)
  have b: "score_buildability (in_buildability x) st = st" for st
    using assms
    by (cases "in_buildability x") (simp_all add: no_deduction_input_def score_buildability_def)
  show ?thesis
    by (simp add: score_of_def calculate_constraints_score_def final_state_def o f c i b)
qed

text \<open>
  Claim C1. For every combination of overlays, flood information, constraints,
  infrastructure and buildability, the score returned by \<open>_calculate_constraints_score\<close>
  is an integer between 1 and 100; when nothing triggers a deduction (no overlay group, no
  flood mapping, no easement, covenant, koala or ESA status, water and sewer available or
  no infrastructure data, lot compliant or no buildability data) the score is exactly 100.
\<close>

theorem score_in_range_and_baseline:
  "1 \<le> score_of x \<and> score_of x \<le> 100 \<and> (no_deduction_input x \<longrightarrow> score_of x = 100)"
proof -
  have "1 \<le> score_of x \<and> score_of x \<le> 100"
    by (simp add: score_of_eq)
  then show ?thesis
    using score_baseline by blast
qed

theorem score_in_range_and_baseline_witness:
  "no_deduction_input clear_site \<and> score_of clear_site = 100"
proof -
  have h: "no_deduction_input clear_site"
    by (simp add: no_deduction_input_def clear_site_def serviced_def)
  show ?thesis
    using h score_in_range_and_baseline [of clear_site] by simp
qed

subsection \<open>Monotonicity\<close>

lemma score_group_mono: "fst a \<le> fst b \<Longrightarrow> fst (score_group a g) \<le> fst (score_group b g)"
  by (simp add: score_group_def deduct_def Let_def)

lemma score_group_le: "fst (score_group a g) \<le> fst a"
  by (simp add: score_group_def deduct_def Let_def)

lemma score_group_more_layer:
  "fst (score_group a (g \<lparr> g_layers := g_layers g @ [l] \<rparr>)) \<le> fst (score_group a g)"
  by (simp add: score_group_def deduct_def Let_def)

lemma foldl_score_group_mono:
  "fst a \<le> fst b \<Longrightarrow> fst (foldl score_group a gs) \<le> fst (foldl score_group b gs)"
  by (induction gs arbitrary: a b) (simp_all add: score_group_mono)

lemma score_flood_mono: "fst a \<le> fst b \<Longrightarrow> fst (score_flood f a) \<le> fst (score_flood f b)"
  by (cases f) (simp_all add: score_flood_def deduct_def)

lemma score_constraints_mono:
  "fst a \<le> fst b \<Longrightarrow> fst (score_constraints c a) \<le> fst (score_constraints c b)"
  by (cases c) (simp_all add: score_constraints_def deduct_def Let_def)

lemma score_infrastructure_mono:
  "fst a \<le> fst b \<Longrightarrow> fst (score_infrastructure i a) \<le> fst (score_infrastructure i b)"
  by (cases i) (simp_all add: score_infrastructure_def deduct_def Let_def)

lemma score_buildability_mono:
  "fst a \<le> fst b \<Longrightarrow> fst (score_buildability r a) \<le> fst (score_buildability r b)"
  by (cases r) (simp_all add: score_buildability_def deduct_def)

lemma clamp_mono: "(a::int) \<le> b \<Longrightarrow> max 1 (min 100 a) \<le> max 1 (min 100 b)"
  by simp

lemma final_state_overlays_mono:
  assumes "fst (foldl score_group (100, []) ovs') \<le> fst (foldl score_group (100, []) ovs)"
  shows "fst (final_state ovs' f c i r) \<le> fst (final_state ovs f c i r)"
  unfolding final_state_def
  by (intro score_buildability_mono score_infrastructure_mono score_constraints_mono
      score_flood_mono assms)

lemma final_state_flood_mono:
  assumes "\<And>st. fst (score_flood f' st) \<le> fst (score_flood f st)"
  shows "fst (final_state ovs f' c i r) \<le> fst (final_state ovs f c i r)"
  unfolding final_state_def
  by (intro score_buildability_mono score_infrastructure_mono score_constraints_mono assms)

lemma final_state_constraints_mono:
  assumes "\<And>st. fst (score_constraints c' st) \<le> fst (score_constraints c st)"
  shows "fst (final_state ovs f c' i r) \<le> fst (final_state ovs f c i r)"
  unfolding final_state_def
  by (intro score_buildability_mono score_infrastructure_mono assms)

lemma final_state_infrastructure_mono:
  assumes "\<And>st. fst (score_infrastructure i' st) \<le> fst (score_infrastructure i st)"
  shows "fst (final_state ovs f c i' r) \<le> fst (final_state ovs f c i r)"
  unfolding final_state_def
  by (intro score_buildability_mono assms)

lemma final_state_buildability_mono:
  assumes "\<And>st. fst (score_buildability r' st) \<le> fst (score_buildability r st)"
  shows "fst (final_state ovs f c i r') \<le> fst (final_state ovs f c i r)"
  unfolding final_state_def by (rule assms)

lemma score_of_mono:
  assumes "fst (final_state (in_overlays y) (in_flood_info y) (in_constraints y)
                  (in_infrastructure y) (in_buildability y))
           \<le> fst (final_state (in_overlays x) (in_flood_info x) (in_constraints x)
                  (in_infrastructure x) (in_buildability x))"
  shows "score_of y \<le> score_of x"
  unfolding score_of_eq using assms by (rule clamp_mono)

text \<open>
  Claim C6. The constraint score is monotonically non-increasing under adding
  deduction-triggering inputs: whenever \<open>y\<close> extends the scorer input \<open>x\<close> by one more
  overlay layer or overlay group of a deduction category, one more easement or covenant,
  flood data becoming present, a water or sewer service becoming missing, or the lot
  becoming non-compliant (or by one of the dictionaries appearing at all), the score of
  \<open>y\<close> is at most the score of \<open>x\<close>.
\<close>

theorem score_monotone: "extends x y \<Longrightarrow> score_of y \<le> score_of x"
proof (induction rule: extends.induct)
  case (more_layer g x pre post l)
  have "fst (foldl score_group (100, []) (pre @ g \<lparr> g_layers := g_layers g @ [l] \<rparr> # post))
        \<le> fst (foldl score_group (100, []) (pre @ g # post))"
    by (simp add: foldl_score_group_mono score_group_more_layer)
  then have "fst (final_state (pre @ g \<lparr> g_layers := g_layers g @ [l] \<rparr> # post) f c i r)
             \<le> fst (final_state (pre @ g # post) f c i r)" for f c i r
    by (rule final_state_overlays_mono)
  then show ?case
    using more_layer by (intro score_of_mono) simp
next
  case (more_group g x pre post)
  have "fst (foldl score_group (100, []) (pre @ g # post))
        \<le> fst (foldl score_group (100, []) (pre @ post))"
    by (simp add: foldl_score_group_mono score_group_le)
  then have "fst (final_state (pre @ g # post) f c i r)
             \<le> fst (final_state (pre @ post) f c i r)" for f c i r
    by (rule final_state_overlays_mono)
  then show ?case
    using more_group by (intro score_of_mono) simp
next
  case (more_easement x c)
  have "fst (score_constraints (Some (c \<lparr> easements_count := easements_count c + 1 \<rparr>)) st)
        \<le> fst (score_constraints (Some c) st)" for st
    by (simp add: score_constraints_def deduct_def Let_def)
  then show ?case
    using more_easement by (intro score_of_mono) (simp add: final_state_constraints_mono)
next
  case (more_covenant x c)
  have "fst (score_constraints (Some (c \<lparr> covenants_count := covenants_count c + 1 \<rparr>)) st)
        \<le> fst (score_constraints (Some c) st)" for st
    by (simp add: score_constraints_def deduct_def Let_def)
  then show ?case
    using more_covenant by (intro score_of_mono) (simp add: final_state_constraints_mono)
next
  case (first_constraints x c)
  have "fst (score_constraints (Some c) st) \<le> fst (score_constraints None st)" for st
    by (simp add: score_constraints_def deduct_def Let_def)
  then show ?case
    using first_constraints by (intro score_of_mono) (simp add: final_state_constraints_mono)
next
  case (flood_present x fi)
  have "fst (score_flood (Some (fi \<lparr> has_flood_data := True \<rparr>)) st)
        \<le> fst (score_flood (Some fi) st)" for st
    by (simp add: score_flood_def deduct_def)
  then show ?case
    using flood_present by (intro score_of_mono) (simp add: final_state_flood_mono)
next
  case (first_flood x fi)
  have "fst (score_flood (Some fi) st) \<le> fst (score_flood None st)" for st
    by (simp add: score_flood_def deduct_def)
  then show ?case
    using first_flood by (intro score_of_mono) (simp add: final_state_flood_mono)
next
  case (water_missing x i)
  have "fst (score_infrastructure
               (Some (i \<lparr> water := (water i) \<lparr> w_available := False \<rparr> \<rparr>)) st)
        \<le> fst (score_infrastructure (Some i) st)" for st
    by (simp add: score_infrastructure_def deduct_def Let_def)
  then show ?case
    using water_missing by (intro score_of_mono) (simp add: final_state_infrastructure_mono)
next
  case (sewer_missing x i)
  have "fst (score_infrastructure
               (Some (i \<lparr> sewer := (sewer i) \<lparr> s_available := False \<rparr> \<rparr>)) st)
        \<le> fst (score_infrastructure (Some i) st)" for st
    by (simp add: score_infrastructure_def deduct_def Let_def)
  then show ?case
    using sewer_missing by (intro score_of_mono) (simp add: final_state_infrastructure_mono)
next
  case (first_infrastructure x i)
  have "fst (score_infrastructure (Some i) st) \<le> fst (score_infrastructure None st)" for st
    by (simp add: score_infrastructure_def deduct_def Let_def)
  then show ?case
    using first_infrastructure
    by (intro score_of_mono) (simp add: final_state_infrastructure_mono)
next
  case (lot_non_compliant x r)
  have "fst (score_buildability
               (Some (Inr (r \<lparr> b_lot_compliance :=
                                  (b_lot_compliance r) \<lparr> compliant := False \<rparr> \<rparr>))) st)
        \<le> fst (score_buildability (Some (Inr r)) st)" for st
    by (simp add: score_buildability_def deduct_def lot_compliant_of_def)
  then show ?case
    using lot_non_compliant by (intro score_of_mono) (simp add: final_state_buildability_mono)
next
  case (first_buildability x b)
  have "fst (score_buildability (Some b) st) \<le> fst (score_buildability None st)" for st
    by (simp add: score_buildability_def deduct_def)
  then show ?case
    using first_buildability by (intro score_of_mono) (simp add: final_state_buildability_mono)
qed

lemma bushfire_is_deduction_category: "deduction_category (Some ''Bushfire Hazard'')"
  by code_simp

lemma bushfire_scores:
  "score_of bushfire_site = 88"
  "score_of (bushfire_site
      \<lparr> in_overlays := [bushfire_group \<lparr> g_layers := g_layers bushfire_group @ [bushfire_layer] \<rparr>] \<rparr>) = 76"
  by code_simp+

theorem score_monotone_witness:
  "extends bushfire_site
     (bushfire_site
        \<lparr> in_overlays :=
            [] @ bushfire_group \<lparr> g_layers := g_layers bushfire_group @ [bushfire_layer] \<rparr> # [] \<rparr>)
   \<and> score_of (bushfire_site
        \<lparr> in_overlays :=
            [] @ bushfire_group \<lparr> g_layers := g_layers bushfire_group @ [bushfire_layer] \<rparr> # [] \<rparr>)
       \<le> score_of bushfire_site"
proof -
  have e: "extends bushfire_site
     (bushfire_site
        \<lparr> in_overlays :=
            [] @ bushfire_group \<lparr> g_layers := g_layers bushfire_group @ [bushfire_layer] \<rparr> # [] \<rparr>)"
    by (rule more_layer)
       (simp_all add: bushfire_is_deduction_category bushfire_site_def bushfire_group_def)
  show ?thesis
    using e score_monotone [OF e] by simp
qed

section \<open>Properties of the precedent analyzer\<close>

lemma count_da_fields:
  "approved (count_da c d) =
     approved c + (if str_in ''approved'' (lower (str_or_empty (decision d))) then 1 else 0)"
  "refused (count_da c d) =
     refused c + (if \<not> str_in ''approved'' (lower (str_or_empty (decision d)))
                     \<and> str_in ''refused'' (lower (str_or_empty (decision d))) then 1 else 0)"
  "approved (count_da c d) + refused (count_da c d) + lapsed (count_da c d)
     + in_progress (count_da c d)
   = Suc (approved c + refused c + lapsed c + in_progress c)"
  by (auto simp: count_da_def Let_def)

lemma foldl_count_da_approved:
  "approved (foldl count_da c ds) =
     approved c + length (filter (\<lambda>d. str_in ''approved'' (lower (str_or_empty (decision d)))) ds)"
  by (induction ds arbitrary: c) (simp_all add: count_da_fields)

lemma foldl_count_da_refused:
  "refused (foldl count_da c ds) =
     refused c + length (filter (\<lambda>d. \<not> str_in ''approved'' (lower (str_or_empty (decision d)))
                                    \<and> str_in ''refused'' (lower (str_or_empty (decision d)))) ds)"
  by (induction ds arbitrary: c) (simp_all add: count_da_fields)

lemma foldl_count_da_total:
  "approved (foldl count_da c ds) + refused (foldl count_da c ds) + lapsed (foldl count_da c ds)
     + in_progress (foldl count_da c ds)
   = approved c + refused c + lapsed c + in_progress c + length ds"
proof (induction ds arbitrary: c)
  case Nil
  show ?case by simp
next
  case (Cons d ds)
  show ?case
    using Cons [of "count_da c d"] count_da_fields(3) [of c d] by simp
qed

lemma analyze_fields:
  "approved_count (analyze_da_precedent on_p near) =
     length (filter (\<lambda>d. str_in ''approved'' (lower (str_or_empty (decision d)))) (on_p @ near))"
  "refused_count (analyze_da_precedent on_p near) =
     length (filter (\<lambda>d. \<not> str_in ''approved'' (lower (str_or_empty (decision d)))
                         \<and> str_in ''refused'' (lower (str_or_empty (decision d)))) (on_p @ near))"
  "total_count (analyze_da_precedent on_p near) = length on_p + length near"
  "(pr_assessment (analyze_da_precedent on_p near), outlook (analyze_da_precedent on_p near)) =
     assess (total_count (analyze_da_precedent on_p near))
            (approved_count (analyze_da_precedent on_p near))
            (refused_count (analyze_da_precedent on_p near))"
  "in_progress_count (analyze_da_precedent on_p near) + lapsed_count (analyze_da_precedent on_p near)
     \<le> total_count (analyze_da_precedent on_p near)"
  using foldl_count_da_total [of "\<lparr> approved = 0, refused = 0, in_progress = 0, lapsed = 0,
                               categories = [] \<rparr>" "on_p @ near"]
  by (simp_all add: analyze_da_precedent_def Let_def split_def foldl_count_da_approved
      foldl_count_da_refused del: foldl_append)

text \<open>
  Claim C7. For every application history, \<open>_analyze_da_precedent\<close> counts as approved the
  applications whose decision contains "approved" and as refused those whose decision
  contains "refused" (and not "approved"), and classifies the outlook in this order: no
  application at all gives the no-precedent assessment, outlook neutral, with every count
  zero; else positive if refusals = 0 and approvals > 0; else positive if approvals >
  2 \<times> refusals; else negative if refusals > approvals; else neutral.
\<close>

theorem precedent_outlook:
  fixes on_p near :: "da list"
  defines "r \<equiv> analyze_da_precedent on_p near"
  shows "total_count r = length on_p + length near
       \<and> approved_count r =
           length (filter (\<lambda>d. str_in ''approved'' (lower (str_or_empty (decision d)))) (on_p @ near))
       \<and> refused_count r =
           length (filter (\<lambda>d. \<not> str_in ''approved'' (lower (str_or_empty (decision d)))
                               \<and> str_in ''refused'' (lower (str_or_empty (decision d)))) (on_p @ near))
       \<and> (on_p @ near = [] \<longrightarrow>
            pr_assessment r = NoPrecedentData \<and> outlook r = ''neutral'' \<and> approved_count r = 0
            \<and> refused_count r = 0 \<and> in_progress_count r = 0 \<and> lapsed_count r = 0
            \<and> total_count r = 0)
       \<and> (on_p @ near \<noteq> [] \<longrightarrow>
            outlook r =
              (if refused_count r = 0 \<and> 0 < approved_count r then ''positive''
               else if 2 * refused_count r < approved_count r then ''positive''
               else if approved_count r < refused_count r then ''negative''
               else ''neutral''))"
proof -
  have t: "total_count r = length on_p + length near"
    unfolding r_def by (rule analyze_fields(3))
  have a: "(pr_assessment r, outlook r) = assess (total_count r) (approved_count r) (refused_count r)"
    unfolding r_def by (rule analyze_fields(4))
  have e: "on_p @ near = [] \<Longrightarrow> approved_count r = 0 \<and> refused_count r = 0
            \<and> in_progress_count r = 0 \<and> lapsed_count r = 0"
    using analyze_fields(5) [of on_p near] t
    by (simp add: r_def analyze_fields(1,2))
  have n: "on_p @ near \<noteq> [] \<Longrightarrow> total_count r \<noteq> 0"
    using t by simp
  show ?thesis
    using t a e n
    by (auto simp: r_def analyze_fields(1,2) assess_def mult.commute split: if_splits)
qed

lemma lower_decisions:
  "lower ''Approved'' = ''approved''"
  "lower ''Approved with conditions'' = ''approved with conditions''"
  "lower ''Refused'' = ''refused''"
  by code_simp+

theorem precedent_outlook_witness:
  "[da_decided ''Approved'', da_decided ''Approved'', da_decided ''Approved with conditions''] @ [] \<noteq> []
   \<and> outlook (analyze_da_precedent
        [da_decided ''Approved'', da_decided ''Approved'', da_decided ''Approved with conditions'']
        []) = ''positive''
   \<and> outlook (analyze_da_precedent
        [da_decided ''Approved''] [da_decided ''Refused'', da_decided ''Refused'']) = ''negative''
   \<and> [] @ [] = ([] :: da list)
   \<and> pr_assessment (analyze_da_precedent [] []) = NoPrecedentData
   \<and> outlook (analyze_da_precedent [] []) = ''neutral''
   \<and> total_count (analyze_da_precedent [] []) = 0"
  using precedent_outlook
          [of "[da_decided ''Approved'', da_decided ''Approved'',
                da_decided ''Approved with conditions'']" "[]"]
        precedent_outlook [of "[da_decided ''Approved'']"
                              "[da_decided ''Refused'', da_decided ''Refused'']"]
        precedent_outlook [of "[]" "[]"]
  by (simp add: da_decided_def str_or_empty_def lower_decisions)

section \<open>Properties of the buildability calculator\<close>

subsection \<open>Evaluating the rule table\<close>

lemmas lower_eval = lower_def lower_char_def char_of_def bit_Suc_0_iff

lemma spaceport_unknown: "get_zone_rules ''Spaceport Zone'' = None"
  by (simp add: get_zone_rules_def ZONE_RULES_def lower_eval)

lemma low_density_resolved:
  "resolve_rules None (zone_code_of (Some (zone_named ''Low Density Residential Zone''))) =
     (mk_rules ''Residential Zones Category'' 8.5 2 50 6 1.5 6 (Some 400) (Some 12) ''1 per lot''
        [''Dwelling house'', ''Home-based business'', ''Caretaker's accommodation'']
        [''Dual occupancy'', ''Secondary dwelling'', ''Community facility'', ''Childcare centre''])
     \<lparr> zone_code := Some ''Low Density Residential Zone'',
       source := Some ''scc_planning_scheme'' \<rparr>"
  by (simp add: resolve_rules_def zone_code_of_def zone_named_def get_zone_rules_def
      ZONE_RULES_def)

lemma open_space_min_lot:
  "min_lot_size_sqm (resolve_rules None (zone_code_of (Some (zone_named ''Open Space Zone''))))
     = None"
  by (simp add: resolve_rules_def zone_code_of_def zone_named_def get_zone_rules_def
      ZONE_RULES_def mk_rules_def)

subsection \<open>The two ways out of \<open>calculate_buildability\<close>\<close>

lemma calculate_positive:
  assumes "area_sqm p = Some a" "0 < a"
  shows "calculate_buildability p z rs ov h =
           Inr (Inr (build_report a (zone_code_of z) (zone_category_of z)
                       (resolve_rules rs (zone_code_of z)) ov h))"
  using assms by (simp add: calculate_buildability_def Let_def)

lemma calculate_missing_area:
  assumes "area_sqm p = None \<or> area_sqm p = Some 0"
  shows "calculate_buildability p z rs ov h =
           Inr (Inl \<lparr> e_zone_code = zone_code_of z, e_zone_category = zone_category_of z,
                      error = NoLotAreaData \<rparr>)"
  using assms by (auto simp: calculate_buildability_def Let_def)

lemma build_report_empty_rules:
  "build_report a c k empty_rules ov h =
     \<lparr> b_zone = \<lparr> zo_code = c, zo_category = k, zo_source = ''scc_arcgis'' \<rparr>,
       b_rules = \<lparr> ro_max_height_m = truthy_real h, ro_max_storeys = None,
                   ro_min_lot_size_sqm = None, ro_max_site_cover_pct = 50,
                   ro_front_setback_m = 6, ro_side_setback_m = 1.5, ro_rear_setback_m = 6,
                   ro_min_frontage_m = None \<rparr>,
       b_envelope = \<lparr> max_footprint_sqm = round1 (effective_footprint a 50 6 1.5 6),
                      max_gfa_sqm = round1 (effective_footprint a 50 6 1.5 6 * 1),
                      max_dwellings = 1,
                      buildable_area_after_setbacks_sqm =
                        round1 (buildable_area_after_setbacks a 6 1.5 6) \<rparr>,
       b_subdivision = \<lparr> can_subdivide = False, max_new_lots = 0,
                         sub_min_lot_size_sqm = None \<rparr>,
       b_uses = \<lparr> accepted = [], assessable = [] \<rparr>,
       b_constraints = overlay_constraints ov,
       b_lot_compliance = \<lparr> compliant = True, issues = [] \<rparr>,
       disclaimer = disclaimer_text \<rparr>"
  by (cases h)
     (simp_all add: build_report_def empty_rules_def Let_def f_default_def truthy_real_def
        calc_max_dwellings_def calc_can_subdivide_def calc_max_new_lots_def)

text \<open>
  Claim C2, as stated, fails: with a zone code that matches no entry of the built-in table,
  exactly or as a substring, and a rule-table fallback that resolves nothing, the
  calculator does not fail with an unknown-zone error. It returns a report.
\<close>

theorem unknown_zone_counterexample:
  "get_planning_rules no_db_rules ''Spaceport Zone'' = None
   \<and> report_of (calculate_buildability (parcel_of_area 600)
                  (Some (zone_named ''Spaceport Zone'')) None [] None) \<noteq> None"
proof -
  have "get_planning_rules no_db_rules ''Spaceport Zone'' = None"
    by (simp add: get_planning_rules_def no_db_rules_def spaceport_unknown)
  moreover have "report_of (calculate_buildability (parcel_of_area 600)
                  (Some (zone_named ''Spaceport Zone'')) None [] None) \<noteq> None"
    by (simp add: calculate_positive [of _ 600] parcel_of_area_def report_of_def)
  ultimately show ?thesis by simp
qed

text \<open>
  Claim C2, amended. \<open>calculate_buildability\<close> returns the missing-area error dictionary
  (a returned value, not an exception) whenever the parcel's area is absent or zero. For
  every positive area it returns a report whatever the zone: the rules are the ones
  passed in, else the built-in entry for the zone code (exact or substring match), else
  the empty rule set, whose values are the defaults. There is no unknown-zone failure.
\<close>

theorem missing_area_only_failure:
  "((area_sqm p = None \<or> area_sqm p = Some 0) \<longrightarrow>
      calculate_buildability p z rs ov h =
        Inr (Inl \<lparr> e_zone_code = zone_code_of z, e_zone_category = zone_category_of z,
                   error = NoLotAreaData \<rparr>))
   \<and> (\<forall>a. area_sqm p = Some a \<longrightarrow> 0 < a \<longrightarrow>
         calculate_buildability p z rs ov h =
           Inr (Inr (build_report a (zone_code_of z) (zone_category_of z)
                       (case rs of Some r \<Rightarrow> r
                        | None \<Rightarrow> (case get_zone_rules (zone_code_of z) of
                                     Some r \<Rightarrow> r | None \<Rightarrow> empty_rules)) ov h)))"
  using calculate_missing_area [of p z rs ov h] calculate_positive [of p _ z rs ov h]
  by (simp add: resolve_rules_def)

theorem missing_area_only_failure_witness:
  "(area_sqm \<lparr> lot = None, plan = None, area_sqm = None \<rparr> = None
      \<or> area_sqm \<lparr> lot = None, plan = None, area_sqm = None \<rparr> = Some 0)
   \<and> calculate_buildability \<lparr> lot = None, plan = None, area_sqm = None \<rparr>
        (Some (zone_named ''Rural Zone'')) None [] None
      = Inr (Inl \<lparr> e_zone_code = ''Rural Zone'', e_zone_category = ''Unknown Category'',
                   error = NoLotAreaData \<rparr>)
   \<and> area_sqm (parcel_of_area 600) = Some 600 \<and> (0::real) < 600
   \<and> calculate_buildability (parcel_of_area 600) (Some (zone_named ''Spaceport Zone'')) None [] None
      = Inr (Inr (build_report 600 ''Spaceport Zone'' ''Unknown Category'' empty_rules [] None))"
  using missing_area_only_failure
          [where p = "\<lparr> lot = None, plan = None, area_sqm = None \<rparr>"
             and z = "Some (zone_named ''Rural Zone'')" and rs = None and ov = "[]" and h = None]
        missing_area_only_failure
          [where p = "parcel_of_area 600" and z = "Some (zone_named ''Spaceport Zone'')"
             and rs = None and ov = "[]" and h = None]
        spaceport_unknown
  by (simp add: parcel_of_area_def zone_code_of_def zone_category_of_def zone_named_def)

text \<open>
  Claim C10. For every parcel with a positive area and every zone, rules, overlays and
  height override, \<open>calculate_buildability\<close> returns a complete report and raises nothing.
  When no rules are passed in and the zone code resolves to no built-in entry, the report
  is the one of the default values: site coverage 50 %, front setback 6 m, side setback
  1.5 m, rear setback 6 m, no minimum lot size, no height limit beyond a height override,
  one storey, one dwelling, no subdivision and a compliant lot.
\<close>

theorem unresolved_zone_defaults:
  assumes "area_sqm p = Some a" "0 < a"
  shows "report_of (calculate_buildability p z rs ov h) \<noteq> None
       \<and> (rs = None \<longrightarrow> get_zone_rules (zone_code_of z) = None \<longrightarrow>
            calculate_buildability p z rs ov h =
              Inr (Inr
                \<lparr> b_zone = \<lparr> zo_code = zone_code_of z, zo_category = zone_category_of z,
                             zo_source = ''scc_arcgis'' \<rparr>,
                  b_rules = \<lparr> ro_max_height_m = truthy_real h, ro_max_storeys = None,
                              ro_min_lot_size_sqm = None, ro_max_site_cover_pct = 50,
                              ro_front_setback_m = 6, ro_side_setback_m = 1.5,
                              ro_rear_setback_m = 6, ro_min_frontage_m = None \<rparr>,
                  b_envelope =
                    \<lparr> max_footprint_sqm = round1 (effective_footprint a 50 6 1.5 6),
                      max_gfa_sqm = round1 (effective_footprint a 50 6 1.5 6 * 1),
                      max_dwellings = 1,
                      buildable_area_after_setbacks_sqm =
                        round1 (buildable_area_after_setbacks a 6 1.5 6) \<rparr>,
                  b_subdivision = \<lparr> can_subdivide = False, max_new_lots = 0,
                                    sub_min_lot_size_sqm = None \<rparr>,
                  b_uses = \<lparr> accepted = [], assessable = [] \<rparr>,
                  b_constraints = overlay_constraints ov,
                  b_lot_compliance = \<lparr> compliant = True, issues = [] \<rparr>,
                  disclaimer = disclaimer_text \<rparr>))"
proof -
  have r: "report_of (calculate_buildability p z rs ov h) \<noteq> None"
    using assms by (simp add: calculate_positive report_of_def)
  have d: "resolve_rules None (zone_code_of z) = empty_rules"
    if "get_zone_rules (zone_code_of z) = None"
    using that by (simp add: resolve_rules_def)
  show ?thesis
    using r d assms by (auto simp: calculate_positive build_report_empty_rules)
qed

theorem unresolved_zone_defaults_witness:
  "area_sqm (parcel_of_area 600) = Some 600 \<and> (0::real) < 600
   \<and> get_zone_rules (zone_code_of (Some (zone_named ''Spaceport Zone''))) = None
   \<and> map_option b_rules
        (report_of (calculate_buildability (parcel_of_area 600)
                      (Some (zone_named ''Spaceport Zone'')) None [] None))
       = Some \<lparr> ro_max_height_m = None, ro_max_storeys = None, ro_min_lot_size_sqm = None,
                 ro_max_site_cover_pct = 50, ro_front_setback_m = 6, ro_side_setback_m = 1.5,
                 ro_rear_setback_m = 6, ro_min_frontage_m = None \<rparr>"
  using unresolved_zone_defaults
          [where p = "parcel_of_area 600" and a = 600 and rs = None
             and z = "Some (zone_named ''Spaceport Zone'')" and ov = "[]" and h = None]
        spaceport_unknown
  by (simp add: parcel_of_area_def report_of_def truthy_real_def zone_code_of_def
      zone_named_def)

subsection \<open>Subdivision\<close>

lemma build_report_subdivision:
  "b_subdivision (build_report a c k rules ov h) =
     \<lparr> can_subdivide = calc_can_subdivide a (f_default (min_lot_size_sqm rules) 0),
       max_new_lots = calc_max_new_lots a (f_default (min_lot_size_sqm rules) 0),
       sub_min_lot_size_sqm = truthy_real (Some (f_default (min_lot_size_sqm rules) 0)) \<rparr>"
  by (simp add: build_report_def Let_def)

text \<open>
  Claim C8. For every parcel with a positive area whose resolved rules define a positive
  minimum lot size \<open>m\<close>, the report has \<open>can_subdivide\<close> exactly when
  \<open>area \<ge> 2 \<times> m\<close>, and \<open>max_new_lots = floor (area / m)\<close>; when the rules define no
  minimum lot size, \<open>can_subdivide\<close> is false and \<open>max_new_lots\<close> is 0.
\<close>

theorem subdivision_potential:
  assumes "area_sqm p = Some a" "0 < a"
  shows "(\<forall>m. min_lot_size_sqm (resolve_rules rs (zone_code_of z)) = Some m \<longrightarrow> 0 < m \<longrightarrow>
            reported_subdivision (calculate_buildability p z rs ov h)
              = Some (2 * m \<le> a, \<lfloor>a / m\<rfloor>))
       \<and> (min_lot_size_sqm (resolve_rules rs (zone_code_of z)) = None \<longrightarrow>
            reported_subdivision (calculate_buildability p z rs ov h) = Some (False, 0))"
  using assms
  by (simp add: calculate_positive reported_subdivision_def report_of_def
      build_report_subdivision f_default_def calc_can_subdivide_def calc_max_new_lots_def
      py_trunc_def mult.commute)

theorem subdivision_potential_witness:
  "area_sqm (parcel_of_area 900) = Some 900 \<and> (0::real) < 900 \<and> (0::real) < 400
   \<and> reported_subdivision
       (calculate_buildability (parcel_of_area 900)
          (Some (zone_named ''Low Density Residential Zone'')) None [] None) = Some (True, 2)
   \<and> reported_subdivision
       (calculate_buildability (parcel_of_area 900)
          (Some (zone_named ''Open Space Zone'')) None [] None) = Some (False, 0)"
  using subdivision_potential
          [where p = "parcel_of_area 900" and a = 900 and rs = None
             and z = "Some (zone_named ''Low Density Residential Zone'')" and ov = "[]"
             and h = None]
        subdivision_potential
          [where p = "parcel_of_area 900" and a = 900 and rs = None
             and z = "Some (zone_named ''Open Space Zone'')" and ov = "[]" and h = None]
  by (simp add: parcel_of_area_def low_density_resolved mk_rules_def open_space_min_lot)

subsection \<open>Footprint\<close>

lemma build_report_envelope:
  "max_footprint_sqm (b_envelope (build_report a c k rules ov h)) =
     round1 (effective_footprint a (f_default (max_site_cover_pct rules) 50)
               (f_default (front_setback_m rules) 6) (f_default (side_setback_m rules) 1.5)
               (f_default (rear_setback_m rules) 6))"
  "max_dwellings (b_envelope (build_report a c k rules ov h)) =
     calc_max_dwellings (max_dwelling_density rules) a"
  by (simp_all add: build_report_def Let_def)

lemma sqrt_600_bounds: "24.4948 < sqrt 600" "sqrt 600 < 24.4949"
proof -
  show "24.4948 < sqrt 600"
    by (rule real_less_rsqrt) (simp add: power2_eq_square)
  show "sqrt 600 < 24.4949"
    by (rule real_less_lsqrt) (simp_all add: power2_eq_square)
qed

lemma footprint_600: "effective_footprint 600 50 6 1.5 6 = 636 - 15 * sqrt 600"
proof -
  have sq: "sqrt 600 * sqrt 600 = 600"
    by simp
  have w: "max 0 (sqrt 600 - 2 * 1.5) = sqrt 600 - 3"
    using sqrt_600_bounds by simp
  have d: "max 0 (sqrt 600 - 6 - 6) = sqrt 600 - 12"
    using sqrt_600_bounds by simp
  have pr: "(sqrt 600 - 3) * (sqrt 600 - 12) = 636 - 15 * sqrt 600"
    using sq by (simp add: algebra_simps)
  have lt: "636 - 15 * sqrt 600 < (300::real)"
    using sqrt_600_bounds by simp
  have "effective_footprint 600 50 6 1.5 6 =
          min (600 * (50 / 100)) (max 0 (sqrt 600 - 2 * 1.5) * max 0 (sqrt 600 - 6 - 6))"
    by (simp add: effective_footprint_def max_footprint_def buildable_area_after_setbacks_def
        buildable_width_def buildable_depth_def side_length_def)
  then show ?thesis
    unfolding w d pr using lt by simp
qed

lemma footprint_600_bounds:
  "268.5765 < effective_footprint 600 50 6 1.5 6" "effective_footprint 600 50 6 1.5 6 < 268.578"
  unfolding footprint_600 using sqrt_600_bounds by simp_all

lemma round1_between:
  assumes "of_int n / 10 + 1 / 20 < x" "x < of_int n / 10 + 1 / 10"
  shows "round1 x = of_int (n + 1) / 10"
proof -
  have f: "\<lfloor>x * 10\<rfloor> = n"
    using assms by (intro floor_unique) (simp_all add: field_simps)
  show ?thesis
    using assms by (simp add: round1_def f Let_def field_simps)
qed

lemma round1_footprint_600: "round1 (effective_footprint 600 50 6 1.5 6) = 268.6"
  using round1_between [of 2685 "effective_footprint 600 50 6 1.5 6"] footprint_600_bounds
  by simp

lemma low_density_footprint_600:
  "reported_footprint
     (calculate_buildability (parcel_of_area 600)
        (Some (zone_named ''Low Density Residential Zone'')) None [] None) = Some 268.6"
  using round1_footprint_600
  by (simp add: calculate_positive [of _ 600] parcel_of_area_def reported_footprint_def
      report_of_def build_report_envelope f_default_def low_density_resolved mk_rules_def)

text \<open>
  Claim C4, as stated, fails in its example: for area 600, cover 50 %, front 6, side 1.5 and
  rear 6 (the rules of the Low Density Residential Zone) the effective footprint is not
  268.75, neither as computed nor as reported.
\<close>

theorem footprint_600_counterexample:
  "reported_footprint
     (calculate_buildability (parcel_of_area 600)
        (Some (zone_named ''Low Density Residential Zone'')) None [] None) \<noteq> Some 268.75
   \<and> effective_footprint 600 50 6 1.5 6 \<noteq> 268.75"
  using low_density_footprint_600 footprint_600_bounds by simp

text \<open>
  Claim C4, amended. For every parcel with a positive area and resolved coverage and setback
  rules, the calculator computes max footprint = area \<times> (cover / 100), models the parcel
  as a square of side \<open>sqrt area\<close> with buildable width \<open>max 0 (side - 2 \<times> side setback)\<close> and
  buildable depth \<open>max 0 (side - front - rear)\<close>, takes as effective footprint the minimum
  of the max footprint and width \<times> depth, and reports it rounded to one decimal. For
  area 600, cover 50 %, front 6, side 1.5, rear 6 the effective footprint is
  \<open>636 - 15 \<times> sqrt 600\<close>, about 268.58 and reported as 268.6, the tighter of the two
  bounds (the max footprint is 300).
\<close>

theorem footprint_formula:
  assumes "area_sqm p = Some a" "0 < a"
    and "max_site_cover_pct (resolve_rules rs (zone_code_of z)) = Some cover"
    and "front_setback_m (resolve_rules rs (zone_code_of z)) = Some front"
    and "side_setback_m (resolve_rules rs (zone_code_of z)) = Some side"
    and "rear_setback_m (resolve_rules rs (zone_code_of z)) = Some rear"
  shows "max_footprint a cover = a * (cover / 100)
       \<and> side_length a = sqrt a
       \<and> buildable_width a side = max 0 (sqrt a - 2 * side)
       \<and> buildable_depth a front rear = max 0 (sqrt a - front - rear)
       \<and> effective_footprint a cover front side rear =
           min (max_footprint a cover) (buildable_width a side * buildable_depth a front rear)
       \<and> reported_footprint (calculate_buildability p z rs ov h) =
           Some (round1 (effective_footprint a cover front side rear))"
  using assms
  by (simp add: calculate_positive reported_footprint_def report_of_def build_report_envelope
      f_default_def effective_footprint_def max_footprint_def buildable_area_after_setbacks_def
      buildable_width_def buildable_depth_def side_length_def)

theorem footprint_formula_witness:
  "area_sqm (parcel_of_area 600) = Some 600 \<and> (0::real) < 600
   \<and> reported_footprint
        (calculate_buildability (parcel_of_area 600)
           (Some (zone_named ''Low Density Residential Zone'')) None [] None) = Some 268.6
   \<and> effective_footprint 600 50 6 1.5 6 = 636 - 15 * sqrt 600
   \<and> effective_footprint 600 50 6 1.5 6 < max_footprint 600 50"
  using footprint_formula
          [where p = "parcel_of_area 600" and a = 600 and rs = None
             and z = "Some (zone_named ''Low Density Residential Zone'')" and ov = "[]"
             and h = None and cover = 50 and front = 6 and side = "1.5" and rear = 6]
        footprint_600_bounds round1_footprint_600 footprint_600
  by (simp add: parcel_of_area_def low_density_resolved mk_rules_def)

subsection \<open>The density rule: printing and reading numbers\<close>

lemma of_char_digit:
  "d < 10 \<Longrightarrow> (of_char (char_of (48 + d :: nat) :: char) :: nat) = 48 + d"
  by (simp add: of_char_of)

lemma is_decimal_digit: "d < 10 \<Longrightarrow> is_decimal (char_of (48 + d :: nat))"
  by (simp add: is_decimal_def of_char_digit)

lemma digit_val_digit: "d < 10 \<Longrightarrow> digit_val (char_of (48 + d :: nat)) = d"
  by (simp add: digit_val_def of_char_digit)

lemma str_nat_decimal: "list_all is_decimal (str_nat n)"
proof (induction n rule: str_nat.induct)
  case (1 n)
  show ?case
  proof (cases "n < 10")
    case True
    then show ?thesis by (subst str_nat.simps) (simp add: is_decimal_digit)
  next
    case False
    then show ?thesis
      using 1 by (subst str_nat.simps) (simp add: is_decimal_digit)
  qed
qed

lemma str_nat_not_empty: "str_nat n \<noteq> []"
  by (subst str_nat.simps) simp

lemma dec_digits_decimal:
  "list_all is_decimal ds \<Longrightarrow>
     dec_digits acc ds = Some (foldl (\<lambda>a c. a * 10 + digit_val c) acc ds)"
proof (induction ds arbitrary: acc)
  case Nil
  show ?case by simp
next
  case (Cons c cs)
  then show ?case by (cases cs) simp_all
qed

lemma foldl_str_nat: "foldl (\<lambda>a c. a * 10 + digit_val c) 0 (str_nat n) = n"
proof (induction n rule: str_nat.induct)
  case (1 n)
  show ?case
  proof (cases "n < 10")
    case True
    then show ?thesis by (subst str_nat.simps) (simp add: digit_val_digit)
  next
    case False
    then show ?thesis
      using 1 by (subst str_nat.simps) (simp add: digit_val_digit)
  qed
qed

lemma parse_nat_str_nat: "parse_nat (str_nat n) = Some n"
proof -
  obtain c cs where s: "str_nat n = c # cs"
    using str_nat_not_empty [of n] by (cases "str_nat n") auto
  have d: "list_all is_decimal (c # cs)"
    using str_nat_decimal [of n] s by simp
  have "dec_digits 0 (str_nat n) = Some n"
    using dec_digits_decimal [OF str_nat_decimal, of 0 n] foldl_str_nat by simp
  then show ?thesis
    using d s by (simp add: parse_nat_def)
qed

lemma not_decimal:
  "\<not> is_decimal CHR ''p''" "\<not> is_decimal CHR ''-''" "\<not> is_decimal CHR ''+''"
  "\<not> is_decimal CHR ''l''" "\<not> is_decimal CHR '' ''"
  by (simp_all add: is_decimal_def)

lemma decimal_facts:
  assumes "is_decimal c"
  shows "\<not> is_space c" "c \<noteq> CHR ''p''" "c \<noteq> CHR ''-''" "c \<noteq> CHR ''+''" "c \<noteq> CHR ''l''"
    "isdigit c" "lower_char c = c"
proof -
  show "\<not> is_space c"
    using assms by (simp add: is_decimal_def is_space_def Let_def)
  show "c \<noteq> CHR ''p''" "c \<noteq> CHR ''-''" "c \<noteq> CHR ''+''" "c \<noteq> CHR ''l''"
    using assms not_decimal by blast+
  show "isdigit c"
    using assms by (simp add: isdigit_def)
  show "lower_char c = c"
    using assms by (simp add: is_decimal_def lower_char_def Let_def)
qed

lemma strip_decimal:
  assumes "list_all is_decimal ds"
  shows "strip (ds @ '' '') = ds" "strip ds = ds"
proof -
  have "dropWhile is_space xs = xs" if "list_all is_decimal xs" for xs
    using that by (cases xs) (simp_all add: decimal_facts)
  then have nd: "dropWhile is_space (rev ds) = rev ds" "dropWhile is_space ds = ds"
    using assms by (simp_all add: list_all_iff)
  have sp: "is_space CHR '' ''"
    by (simp add: is_space_def)
  show "strip ds = ds"
    by (simp add: strip_def nd)
  show "strip (ds @ '' '') = ds"
  proof (cases ds)
    case Nil
    then show ?thesis by (simp add: strip_def sp)
  next
    case (Cons c cs)
    then have "\<not> is_space c" using assms by (simp add: decimal_facts)
    then have "dropWhile is_space (ds @ '' '') = ds @ '' ''"
      using Cons by simp
    then show ?thesis
      by (simp add: strip_def sp nd)
  qed
qed

lemma py_int_str_nat: "py_int (str_nat n) = Some (int n)"
proof -
  obtain c cs where s: "str_nat n = c # cs"
    using str_nat_not_empty [of n] by (cases "str_nat n") auto
  have d: "is_decimal c"
    using str_nat_decimal [of n] s by simp
  have "strip (str_nat n) = c # cs"
    using strip_decimal(2) [OF str_nat_decimal, of n] s by simp
  then show ?thesis
    using decimal_facts [OF d] parse_nat_str_nat [of n] s by (simp add: py_int_def)
qed

lemma split_aux_skip:
  "s0 \<notin> set xs \<Longrightarrow> split_aux s0 sep cur (xs @ rest) = split_aux s0 sep (rev xs @ cur) rest"
  by (induction xs arbitrary: cur) auto

lemma split_aux_none: "s0 \<notin> set xs \<Longrightarrow> split_aux s0 sep cur xs = [rev cur @ xs]"
  using split_aux_skip [of s0 xs sep cur "[]"] by simp

lemma decimal_no_p: "list_all is_decimal ds \<Longrightarrow> CHR ''p'' \<notin> set ds"
  using not_decimal(1) by (auto simp: list_all_iff)

lemma split_per_density:
  assumes "list_all is_decimal ds" "list_all is_decimal ds'"
  shows "split_per (ds @ '' per '' @ ds' @ ''sqm'') = [ds @ '' '', '' '' @ ds' @ ''sqm'']"
proof -
  have 1: "CHR ''p'' \<notin> set (ds @ '' '')"
    using decimal_no_p [OF assms(1)] by simp
  have 2: "CHR ''p'' \<notin> set ('' '' @ ds' @ ''sqm'')"
    using decimal_no_p [OF assms(2)] by simp
  have "split_per (ds @ '' per '' @ ds' @ ''sqm'')
        = split_aux CHR ''p'' ''er'' [] ((ds @ '' '') @ (''per '' @ ds' @ ''sqm''))"
    by (simp add: split_per_def)
  also have "\<dots> = split_aux CHR ''p'' ''er'' (rev (ds @ '' '') @ []) (''per '' @ ds' @ ''sqm'')"
    using 1 by (rule split_aux_skip)
  also have "\<dots> = (ds @ '' '') # split_aux CHR ''p'' ''er'' [] ('' '' @ ds' @ ''sqm'')"
    by simp
  also have "\<dots> = [ds @ '' '', '' '' @ ds' @ ''sqm'']"
    using split_aux_none [OF 2, of "''er''" "[]"] by simp
  finally show ?thesis .
qed

lemma filter_isdigit_density:
  assumes "list_all is_decimal ds'"
  shows "filter isdigit ('' '' @ ds' @ ''sqm'') = ds'"
proof -
  have "filter isdigit ds' = ds'"
    using assms by (induction ds') (simp_all add: decimal_facts)
  moreover have "\<not> isdigit CHR '' ''" "\<not> isdigit CHR ''s''" "\<not> isdigit CHR ''q''"
    "\<not> isdigit CHR ''m''"
    by (simp_all add: isdigit_def is_decimal_def)
  ultimately show ?thesis
    by simp
qed

lemma parse_density_canonical:
  "parse_density (str_nat n @ '' per '' @ str_nat m @ ''sqm'') = Some (int n, int m)"
proof -
  have "py_int (strip (str_nat n @ '' '')) = Some (int n)"
    by (simp add: strip_decimal(1) [OF str_nat_decimal] py_int_str_nat)
  moreover have "py_int (filter isdigit ('' '' @ str_nat m @ ''sqm'')) = Some (int m)"
    by (simp only: filter_isdigit_density [OF str_nat_decimal] py_int_str_nat)
  moreover have "split_per (str_nat n @ '' per '' @ str_nat m @ ''sqm'')
                 = [str_nat n @ '' '', '' '' @ str_nat m @ ''sqm'']"
    by (rule split_per_density [OF str_nat_decimal str_nat_decimal])
  ultimately show ?thesis
    by (simp only: parse_density_def list.case option.case)
qed

subsection \<open>The density rule: the branches of the calculator\<close>

lemma starts_with_self: "starts_with sub (sub @ ys)"
  by (induction sub) simp_all

lemma starts_with_str_in: "starts_with sub s \<Longrightarrow> str_in sub s"
  by (cases s; cases sub) simp_all

lemma str_in_prepend: "str_in sub s \<Longrightarrow> str_in sub (xs @ s)"
  by (induction xs) simp_all

lemma str_in_middle: "str_in sub (xs @ sub @ ys)"
  by (intro str_in_prepend starts_with_str_in starts_with_self)

lemma str_in_lot_has_l: "str_in ''lot'' s \<Longrightarrow> CHR ''l'' \<in> set s"
  by (induction s) auto

lemma starts_with_lower: "starts_with sub s \<Longrightarrow> starts_with (lower sub) (lower s)"
  by (induction sub s rule: starts_with.induct) (simp_all add: lower_def)

lemma str_in_lower: "str_in sub s \<Longrightarrow> str_in (lower sub) (lower s)"
proof (induction s)
  case Nil
  then show ?case by (simp add: lower_def)
next
  case (Cons c s)
  then show ?case
    using starts_with_lower [of sub "c # s"] by (auto simp: lower_def)
qed

lemma lower_lot: "lower ''lot'' = ''lot''"
  by (simp add: lower_def lower_char_def)

lemma lower_decimal: "list_all is_decimal ds \<Longrightarrow> lower ds = ds"
  by (induction ds) (simp_all add: lower_def decimal_facts)

lemma canonical_no_lot:
  "\<not> str_in ''lot'' (lower (str_nat n @ '' per '' @ str_nat m @ ''sqm''))"
proof -
  have l: "lower (str_nat n @ '' per '' @ str_nat m @ ''sqm'')
           = str_nat n @ '' per '' @ str_nat m @ ''sqm''"
    using lower_decimal [OF str_nat_decimal]
    by (simp add: lower_def lower_char_def)
  have "CHR ''l'' \<notin> set (str_nat k)" for k
    using str_nat_decimal [of k] not_decimal(4) by (auto simp: list_all_iff)
  then have "CHR ''l'' \<notin> set (str_nat n @ '' per '' @ str_nat m @ ''sqm'')"
    by simp
  then show ?thesis
    unfolding l using str_in_lot_has_l by blast
qed

lemma py_trunc_pos: "0 \<le> x \<Longrightarrow> py_trunc x = \<lfloor>x\<rfloor>"
  by (simp add: py_trunc_def)

lemma calc_canonical:
  assumes "0 < a" "0 < m"
  shows "calc_max_dwellings (Some (str_nat n @ '' per '' @ str_nat m @ ''sqm'')) a
         = max 1 (int n * \<lfloor>a / real m\<rfloor>)"
proof -
  have p: "str_in ''per'' (str_nat n @ '' per '' @ str_nat m @ ''sqm'')"
    using str_in_middle [of "''per''" "str_nat n @ '' ''" "'' '' @ str_nat m @ ''sqm''"] by simp
  have ne: "str_nat n @ '' per '' @ str_nat m @ ''sqm'' \<noteq> []"
    by simp
  have t: "py_trunc (a / real m) = \<lfloor>a / real m\<rfloor>"
    using assms by (simp add: py_trunc_pos)
  show ?thesis
    unfolding calc_max_dwellings_def
    using assms p canonical_no_lot [of n m] parse_density_canonical [of n m] ne t
    by (simp add: mult.commute del: append.simps append_Cons append_Nil)
qed

lemma calc_parsed:
  assumes "str_in ''per'' s" "\<not> str_in ''lot'' (lower s)" "parse_density s = Some (u, m)"
  shows "calc_max_dwellings (Some s) a
         = (if 0 < m then max 1 (py_trunc (a / real_of_int m) * u) else 1)"
proof -
  have "s \<noteq> []" using assms(1) by auto
  then show ?thesis
    using assms by (simp add: calc_max_dwellings_def)
qed

lemma calc_lot:
  assumes "str_in ''lot'' (lower s)"
  shows "calc_max_dwellings (Some s) a = 1"
  using assms by (simp add: calc_max_dwellings_def)

lemma calc_none:
  "calc_max_dwellings (Some ''Caretaker only'') a = 0" "calc_max_dwellings (Some ''None'') a = 0"
  by (simp_all add: calc_max_dwellings_def lower_def lower_char_def)

lemma calc_unparseable:
  assumes "parse_density s = None" "s \<noteq> ''Caretaker only''" "s \<noteq> ''None''"
  shows "calc_max_dwellings (Some s) a = 1"
  using assms by (simp add: calc_max_dwellings_def)

lemma reported_dwellings_eq:
  assumes "area_sqm p = Some a" "0 < a"
  shows "reported_dwellings (calculate_buildability p z rs ov h) =
           Some (calc_max_dwellings (max_dwelling_density (resolve_rules rs (zone_code_of z))) a)"
  using assms
  by (simp add: calculate_positive reported_dwellings_def report_of_def build_report_envelope)

text \<open>
  Claim C3, amended. For every parcel with a positive area, the reported \<open>max_dwellings\<close>
  is computed from the density rule of the resolved rules as follows. For a rule of the
  form "N per M sqm" with M > 0 it is \<open>max 1 (N \<times> floor (area / M))\<close>, so never less
  than 1; more generally, whenever the rule contains "per" and not "lot" and its two
  numbers parse as \<open>units\<close> and \<open>per_sqm\<close>, it is \<open>max 1 (int (area / per_sqm) \<times> units)\<close> if
  \<open>per_sqm > 0\<close> and 1 otherwise. For a rule containing "lot" (in any letter case) it is
  1 regardless of the area; for "Caretaker only" and "None" it is 0; for every other rule
  whose numbers do not parse, and for a missing rule, it is 1.
\<close>

theorem max_dwellings_rule:
  assumes "area_sqm p = Some a" "0 < a"
  shows "reported_dwellings (calculate_buildability p z rs ov h) =
           Some (calc_max_dwellings (max_dwelling_density (resolve_rules rs (zone_code_of z))) a)
       \<and> (\<forall>n m. 0 < m \<longrightarrow>
            calc_max_dwellings (Some (str_nat n @ '' per '' @ str_nat m @ ''sqm'')) a
              = max 1 (int n * \<lfloor>a / real m\<rfloor>))
       \<and> (\<forall>s u m. str_in ''per'' s \<longrightarrow> \<not> str_in ''lot'' (lower s) \<longrightarrow>
            parse_density s = Some (u, m) \<longrightarrow>
            calc_max_dwellings (Some s) a
              = (if 0 < m then max 1 (py_trunc (a / real_of_int m) * u) else 1))
       \<and> (\<forall>s. str_in ''lot'' s \<or> str_in ''lot'' (lower s) \<longrightarrow> calc_max_dwellings (Some s) a = 1)
       \<and> calc_max_dwellings (Some ''Caretaker only'') a = 0
       \<and> calc_max_dwellings (Some ''None'') a = 0
       \<and> (\<forall>s. parse_density s = None \<longrightarrow> s \<noteq> ''Caretaker only'' \<longrightarrow> s \<noteq> ''None'' \<longrightarrow>
            calc_max_dwellings (Some s) a = 1)
       \<and> calc_max_dwellings None a = 1"
proof (intro conjI allI impI)
  show "reported_dwellings (calculate_buildability p z rs ov h) =
          Some (calc_max_dwellings (max_dwelling_density (resolve_rules rs (zone_code_of z))) a)"
    by (rule reported_dwellings_eq [OF assms])
next
  fix n m :: nat
  assume "0 < m"
  with assms(2) show "calc_max_dwellings (Some (str_nat n @ '' per '' @ str_nat m @ ''sqm'')) a
                      = max 1 (int n * \<lfloor>a / real m\<rfloor>)"
    by (rule calc_canonical)
next
  fix s u m
  assume "str_in ''per'' s" "\<not> str_in ''lot'' (lower s)" "parse_density s = Some (u, m)"
  then show "calc_max_dwellings (Some s) a
             = (if 0 < m then max 1 (py_trunc (a / real_of_int m) * u) else 1)"
    by (rule calc_parsed)
next
  fix s
  assume "str_in ''lot'' s \<or> str_in ''lot'' (lower s)"
  then have "str_in ''lot'' (lower s)"
    using str_in_lower [of "''lot''" s] by (auto simp: lower_lot)
  then show "calc_max_dwellings (Some s) a = 1"
    by (rule calc_lot)
next
  show "calc_max_dwellings (Some ''Caretaker only'') a = 0"
    by (rule calc_none(1))
next
  show "calc_max_dwellings (Some ''None'') a = 0"
    by (rule calc_none(2))
next
  fix s
  assume "parse_density s = None" "s \<noteq> ''Caretaker only''" "s \<noteq> ''None''"
  then show "calc_max_dwellings (Some s) a = 1"
    by (rule calc_unparseable)
next
  show "calc_max_dwellings None a = 1"
    by (simp add: calc_max_dwellings_def)
qed

lemma str_nat_examples: "str_nat (Suc 0) = ''1''" "str_nat 200 = ''200''"
  by code_simp+

lemma lot_examples: "str_in ''lot'' ''1 per lot''"
  by simp

lemma low_medium_density_rule:
  "max_dwelling_density
     (resolve_rules None (zone_code_of (Some (zone_named ''Low-medium Density Residential Zone''))))
   = Some ''1 per 300sqm''"
  by (simp add: resolve_rules_def zone_code_of_def zone_named_def get_zone_rules_def
      ZONE_RULES_def mk_rules_def)

lemma dwellings_300_on_200: "calc_max_dwellings (Some ''1 per 300sqm'') 200 = 1"
  by (simp add: calc_max_dwellings_def parse_density_def split_per_def py_int_def strip_def
      is_space_def parse_nat_def is_decimal_def digit_val_def isdigit_def lower_def
      lower_char_def py_trunc_def)

theorem max_dwellings_rule_witness:
  "area_sqm (parcel_of_area 1000) = Some 1000 \<and> (0::real) < 1000 \<and> (0::nat) < 200
   \<and> calc_max_dwellings (Some ''1 per 200sqm'') 1000 = 5
   \<and> str_in ''lot'' ''1 per lot''
   \<and> calc_max_dwellings (Some ''1 per lot'') 1000 = 1
   \<and> calc_max_dwellings (Some ''Caretaker only'') 1000 = 0
   \<and> reported_dwellings
        (calculate_buildability (parcel_of_area 1000)
           (Some (zone_named ''Low-medium Density Residential Zone'')) None [] None)
      = Some (calc_max_dwellings (Some ''1 per 300sqm'') 1000)"
proof -
  have m: "area_sqm (parcel_of_area 1000) = Some 1000" "(0::real) < 1000"
    by (simp_all add: parcel_of_area_def)
  note t = max_dwellings_rule
             [OF m, where z = "Some (zone_named ''Low-medium Density Residential Zone'')"
                and rs = None and ov = "[]" and h = None]
  note t1 = t [THEN conjunct1]
  note t2 = t [THEN conjunct2, THEN conjunct1, rule_format, of 200 1]
  note t4 = t [THEN conjunct2, THEN conjunct2, THEN conjunct2, THEN conjunct1, rule_format,
               of "''1 per lot''"]
  note t5 = t [THEN conjunct2, THEN conjunct2, THEN conjunct2, THEN conjunct2, THEN conjunct1]
  have a: "calc_max_dwellings (Some ''1 per 200sqm'') 1000 = 5"
    using t2 by (simp add: str_nat_examples)
  have b: "calc_max_dwellings (Some ''1 per lot'') 1000 = 1"
    using t4 lot_examples by simp
  have c: "calc_max_dwellings (Some ''Caretaker only'') 1000 = 0"
    by (rule t5)
  have d: "reported_dwellings
        (calculate_buildability (parcel_of_area 1000)
           (Some (zone_named ''Low-medium Density Residential Zone'')) None [] None)
      = Some (calc_max_dwellings (Some ''1 per 300sqm'') 1000)"
    using t1 by (simp only: low_medium_density_rule)
  show ?thesis
    using m a b c d lot_examples by simp
qed

text \<open>
  Claim C3, as stated, fails for a rule "N per M sqm" on a lot smaller than M: in the
  Low-medium Density Residential Zone (rule "1 per 300sqm") a 200 m\<twosuperior> lot is reported
  with 1 dwelling, not with \<open>1 \<times> floor (200 / 300) = 0\<close>.
\<close>

theorem max_dwellings_counterexample:
  "max_dwelling_density
     (resolve_rules None (zone_code_of (Some (zone_named ''Low-medium Density Residential Zone''))))
   = Some ''1 per 300sqm''
   \<and> reported_dwellings
        (calculate_buildability (parcel_of_area 200)
           (Some (zone_named ''Low-medium Density Residential Zone'')) None [] None)
      \<noteq> Some (1 * \<lfloor>(200::real) / 300\<rfloor>)"
proof -
  have "reported_dwellings
        (calculate_buildability (parcel_of_area 200)
           (Some (zone_named ''Low-medium Density Residential Zone'')) None [] None) = Some 1"
    using reported_dwellings_eq [of "parcel_of_area 200" 200]
    by (simp add: parcel_of_area_def low_medium_density_rule dwellings_300_on_200)
  then show ?thesis
    using low_medium_density_rule by simp
qed

section \<open>Properties of the aggregation\<close>

subsection \<open>Deduplication\<close>

lemma layer_key_entry: "layer_key (layer_entry_of item) = dedup_key item"
  by (simp add: layer_key_def layer_entry_of_def dedup_key_def)

lemma add_to_group_unfold:
  "add_to_group cat l gs =
     (if cat \<in> fst ` set gs
      then map (\<lambda>g. if fst g = cat then (fst g, snd g @ [l]) else g) gs
      else gs @ [(cat, [l])])"
  by (simp add: add_to_group_def case_prod_beta)

lemma append_layer_absent:
  "cat \<notin> fst ` set gs \<Longrightarrow> map (\<lambda>g. if fst g = cat then (fst g, snd g @ [l]) else g) gs = gs"
  by (induction gs) auto

lemma append_layer_keys:
  "map fst (map (\<lambda>g. if fst g = cat then (fst g, snd g @ [l]) else g) gs) = map fst gs"
  by (induction gs) simp_all

lemma add_to_group_keys:
  "distinct (map fst gs) \<Longrightarrow> distinct (map fst (add_to_group cat l gs))"
  unfolding add_to_group_unfold by (simp only: append_layer_keys split: if_split) auto

lemma append_layer_mset:
  "distinct (map fst gs) \<Longrightarrow> cat \<in> fst ` set gs \<Longrightarrow>
     mset (concat (map snd (map (\<lambda>g. if fst g = cat then (fst g, snd g @ [l]) else g) gs)))
       = add_mset l (mset (concat (map snd gs)))"
proof (induction gs)
  case Nil
  then show ?case by simp
next
  case (Cons g gs)
  show ?case
  proof (cases "fst g = cat")
    case True
    then have "cat \<notin> fst ` set gs"
      using Cons.prems(1) by auto
    then have "map (\<lambda>g. if fst g = cat then (fst g, snd g @ [l]) else g) gs = gs"
      by (rule append_layer_absent)
    then show ?thesis
      using True by simp
  next
    case False
    then have "cat \<in> fst ` set gs"
      using Cons.prems(2) by auto
    moreover have "distinct (map fst gs)"
      using Cons.prems(1) by simp
    ultimately have "mset (concat (map snd (map (\<lambda>g. if fst g = cat then (fst g, snd g @ [l]) else g) gs)))
       = add_mset l (mset (concat (map snd gs)))"
      by (rule Cons.IH [rotated])
    then show ?thesis
      using False by simp
  qed
qed

lemma add_to_group_mset:
  assumes "distinct (map fst gs)"
  shows "mset (concat (map snd (add_to_group cat l gs))) = add_mset l (mset (concat (map snd gs)))"
proof (cases "cat \<in> fst ` set gs")
  case True
  then show ?thesis
    unfolding add_to_group_unfold using append_layer_mset [OF assms True, of l] by simp
next
  case False
  then show ?thesis
    unfolding add_to_group_unfold by simp
qed

lemma distinct_map_mset:
  assumes "mset xs = add_mset x (mset ys)"
  shows "distinct (map f xs) \<longleftrightarrow> distinct (map f ys) \<and> f x \<notin> f ` set ys"
proof -
  have "image_mset f (mset xs) = image_mset f (add_mset x (mset ys))"
    using assms by simp
  then have "mset (map f xs) = mset (map f (x # ys))"
    by simp
  then have "distinct (map f xs) \<longleftrightarrow> distinct (map f (x # ys))"
    by (rule mset_eq_imp_distinct_iff)
  then show ?thesis by auto
qed

lemma set_of_mset_eq:
  assumes "mset xs = add_mset x (mset ys)"
  shows "set xs = insert x (set ys)"
proof -
  have "set_mset (mset xs) = set_mset (add_mset x (mset ys))"
    using assms by simp
  then show ?thesis by simp
qed

lemma group_loop_distinct:
  assumes "distinct (map fst gs)" "distinct (map layer_key (concat (map snd gs)))"
    and "layer_key ` set (concat (map snd gs)) \<subseteq> set seen"
  shows "distinct (map layer_key (concat (map snd (group_loop raw gs seen))))"
  using assms
proof (induction raw arbitrary: gs seen)
  case Nil
  then show ?case by simp
next
  case (Cons item raw)
  show ?case
  proof (cases "dedup_key item \<in> set seen")
    case True
    then show ?thesis
      using Cons by simp
  next
    case False
    let ?l = "layer_entry_of item"
    let ?gs = "add_to_group (e_category item) ?l gs"
    have m: "mset (concat (map snd ?gs)) = add_mset ?l (mset (concat (map snd gs)))"
      using Cons.prems(1) by (rule add_to_group_mset)
    have fresh: "layer_key ?l \<notin> layer_key ` set (concat (map snd gs))"
      using False Cons.prems(3) by (auto simp: layer_key_entry)
    have 1: "distinct (map fst ?gs)"
      using Cons.prems(1) by (rule add_to_group_keys)
    have 2: "distinct (map layer_key (concat (map snd ?gs)))"
      using distinct_map_mset [OF m, of layer_key] Cons.prems(2) fresh by simp
    have "set (concat (map snd ?gs)) = insert ?l (set (concat (map snd gs)))"
      using m by (rule set_of_mset_eq)
    then have 3: "layer_key ` set (concat (map snd ?gs)) \<subseteq> set (dedup_key item # seen)"
      using Cons.prems(3) by (auto simp: layer_key_entry)
    show ?thesis
      using False Cons.IH [OF 1 2 3] by simp
  qed
qed

lemma distinct_map_factor: "distinct (map (\<lambda>x. g (f x)) xs) \<Longrightarrow> distinct (map f xs)"
  by (induction xs) auto

lemma grouped_layers:
  "concat (map cg_layers (group_overlays raw)) = concat (map snd (group_loop raw [] []))"
proof -
  have "concat (map cg_layers (map (\<lambda>g. \<lparr> cg_category = fst g, cg_layers = snd g \<rparr>) gs))
        = concat (map snd gs)"
    for gs :: "(string \<times> layer_entry list) list"
    by (induction gs) simp_all
  then show ?thesis
    unfolding group_overlays_def case_prod_beta .
qed

lemma grouped_distinct:
  "distinct (map (\<lambda>l. (le_layer_id l, le_label l)) (concat (map cg_layers (group_overlays raw))))"
proof -
  have "distinct (map layer_key (concat (map snd (group_loop raw [] []))))"
    by (rule group_loop_distinct) simp_all
  then have "distinct (map (\<lambda>l. (\<lambda>(i, lb). str_int i @ ''|'' @ py_str lb) (le_layer_id l, le_label l))
                         (concat (map snd (group_loop raw [] []))))"
    by (simp add: layer_key_def [abs_def])
  then show ?thesis
    unfolding grouped_layers by (rule distinct_map_factor)
qed

lemma and_then_returns:
  assumes "and_then r f = Inr y"
  obtains v where "r = Inr v" "f v = Inr y"
  using assms by (cases r) (simp_all add: and_then_def)

lemma nearby_excludes:
  assumes "get_da_history answers lp = Inr h"
    and "e \<in> set (nearby h)" "d \<in> set (on_parcel h)" "id_truthy (ram_id d)"
  shows "ram_id e \<noteq> ram_id d"
  using assms unfolding get_da_history_def Let_def
  by (elim and_then_returns) auto

text \<open>
  Claim C9. Within a single aggregation results are deduplicated by their stable key: the
  grouped overlay output contains no two layer entries with the same (layer id, label)
  pair, and no application case id that appears in the on-parcel list also appears in the
  nearby list, for every history that \<open>get_da_history\<close> returns. A case id is a \<open>ram_id\<close>
  that is present: the code treats \<open>None\<close>, the empty string and zero as no id, in the
  exclusion as in \<open>_process_da_features\<close>.
\<close>

theorem results_deduplicated:
  "distinct (map (\<lambda>l. (le_layer_id l, le_label l))
               (concat (map cg_layers (get_overlays_grouped overlay_service))))
   \<and> (\<forall>h. get_da_history da_service lp = Inr h \<longrightarrow>
         (\<forall>d \<in> set (on_parcel h).
            id_truthy (ram_id d) \<longrightarrow> ram_id d \<notin> ram_id ` set (nearby h)))"
proof
  show "distinct (map (\<lambda>l. (le_layer_id l, le_label l))
               (concat (map cg_layers (get_overlays_grouped overlay_service))))"
    unfolding get_overlays_grouped_def by (rule grouped_distinct)
next
  show "\<forall>h. get_da_history da_service lp = Inr h \<longrightarrow>
         (\<forall>d \<in> set (on_parcel h).
            id_truthy (ram_id d) \<longrightarrow> ram_id d \<notin> ram_id ` set (nearby h))"
  proof (intro allI impI ballI)
    fix h d
    assume h: "get_da_history da_service lp = Inr h"
      and d: "d \<in> set (on_parcel h)" "id_truthy (ram_id d)"
    show "ram_id d \<notin> ram_id ` set (nearby h)"
    proof
      assume "ram_id d \<in> ram_id ` set (nearby h)"
      then obtain e where e: "e \<in> set (nearby h)" "ram_id e = ram_id d"
        by auto
      show False
        using nearby_excludes [OF h e(1) d] e(2) by simp
    qed
  qed
qed

lemma example_history_returned: "get_da_history example_da_service None = Inr example_da_history"
  by code_simp

lemma example_grouped:
  "get_overlays_grouped example_overlay_service
   = [\<lparr> cg_category = ''Bushfire Hazard'',
        cg_layers = [\<lparr> le_layer_id = 32, le_name = ''High Bushfire Hazard Area'',
                       le_label = Some ''High'', le_height_m = None,
                       le_attributes = [] \<rparr>] \<rparr>]"
  by code_simp

theorem results_deduplicated_witness:
  "get_da_history example_da_service None = Inr example_da_history
   \<and> example_da \<in> set (on_parcel example_da_history)
   \<and> id_truthy (ram_id example_da)
   \<and> ram_id example_da \<notin> ram_id ` set (nearby example_da_history)"
proof -
  note h = example_history_returned
  have m: "example_da \<in> set (on_parcel example_da_history)"
    by (simp add: example_da_history_def)
  have t: "id_truthy (ram_id example_da)"
    by (simp add: example_da_def id_truthy_def)
  have "ram_id example_da \<notin> ram_id ` set (nearby example_da_history)"
    by (rule results_deduplicated
               [of example_overlay_service example_da_service None, THEN conjunct2,
                rule_format, OF h m t])
  with h m t show ?thesis
    by (intro conjI)
qed

subsection \<open>Failing providers\<close>

lemma raised_is_caught: "get_features (Raised e) = Some []"
  by (simp add: get_features_def)

lemma null_features_returned: "get_features (Body Null) = None"
  by (simp add: get_features_def)

lemma null_strip_raises: "str_strip (get_or Null d) = Inl AttributeError"
  by (simp add: str_strip_def get_or_def)

lemma none_add_raises: "list_add None b = Inl TypeError" "list_add a None = Inl TypeError"
  by (cases a; simp add: list_add_def)+

lemma strip_raises_only: "str_strip v = Inl e \<Longrightarrow> e = AttributeError"
  by (cases v) (simp_all add: str_strip_def)

lemma and_then_raises:
  "and_then r f = Inl e \<longleftrightarrow> r = Inl e \<or> (\<exists>v. r = Inr v \<and> f v = Inl e)"
  by (cases r) (simp_all add: and_then_def)

lemma null_features_raise:
  "answers DA_IN_PROGRESS 50 = Body Null \<Longrightarrow> get_da_history answers lp = Inl TypeError"
  by (simp add: get_da_history_def Let_def query_da_layer_def null_features_returned
      none_add_raises and_then_def)

lemma null_decision_raises:
  assumes "a_decision feat = Null"
  shows "da_of_feature feat = Inl AttributeError"
proof (cases "da_of_feature feat")
  case (Inl e)
  then have "e = AttributeError"
    unfolding da_of_feature_def and_then_raises by (auto dest: strip_raises_only)
  with Inl show ?thesis by simp
next
  case (Inr d)
  then show ?thesis
    using assms
    by (simp add: da_of_feature_def null_strip_raises and_then_def split: sum.splits)
qed

lemma null_heading_raises:
  "zf_HEADING feat = Null \<Longrightarrow> get_zone (Body (Present (feat # rest))) = Inl AttributeError"
  by (simp add: get_zone_def query_layer_def get_features_def null_strip_raises and_then_def)

lemma task_exception_leaves:
  assumes "get_zone (zoning_answer p) = Inl e \<or> get_da_history (application_answers p) lp = Inl e"
  shows "\<exists>es. aggregate p lp = Inl es \<and> e \<in> set es"
  using assms by (auto simp: aggregate_def Let_def raised_def)

text \<open>
  Claim C5. Each query helper catches what is raised inside its \<open>try\<close> block: when the
  requests of the application service fail with a transport error, every helper returns the
  empty list and the aggregation returns its snapshot, with the empty history for that
  category and the other categories as they were. A response that is decoded without an
  exception is not covered by the \<open>try\<close> block. For the body \<^verbatim>\<open>{"features": null}\<close> the
  helper returns \<open>None\<close>, and \<open>get_da_history\<close> raises \<open>TypeError\<close> when it adds the results
  of two layers. For an application or a zone with an attribute that is \<open>null\<close>, the
  processing calls \<open>.strip()\<close> on \<open>None\<close> and raises \<open>AttributeError\<close>. In each of these
  aggregations one provider answers so and the exception leaves the gather, although every
  other category has its result.
\<close>

theorem malformed_response_escapes:
  "query_da_layer (unreachable_da_service DA_IN_PROGRESS 50) = Some []
   \<and> aggregate (example_providers \<lparr> application_answers := unreachable_da_service \<rparr>) None
       = Inr (example_snapshot \<lparr> da_history := no_da_history \<rparr>)
   \<and> aggregate example_providers None = Inr example_snapshot
   \<and> query_da_layer (null_features_da_service DA_IN_PROGRESS 50) = None
   \<and> get_da_history null_features_da_service None = Inl TypeError
   \<and> aggregate (example_providers \<lparr> application_answers := null_features_da_service \<rparr>) None
       = Inl [TypeError]
   \<and> get_da_history undecided_da_service None = Inl AttributeError
   \<and> aggregate (example_providers \<lparr> application_answers := undecided_da_service \<rparr>) None
       = Inl [AttributeError]
   \<and> get_zone (Body (Present [null_heading_zone_feature])) = Inl AttributeError
   \<and> aggregate (example_providers
                  \<lparr> zoning_answer := Body (Present [null_heading_zone_feature]) \<rparr>) None
       = Inl [AttributeError]"
proof (intro conjI)
  show "query_da_layer (unreachable_da_service DA_IN_PROGRESS 50) = Some []"
    by (simp add: query_da_layer_def unreachable_da_service_def raised_is_caught)
  show "aggregate (example_providers \<lparr> application_answers := unreachable_da_service \<rparr>) None
        = Inr (example_snapshot \<lparr> da_history := no_da_history \<rparr>)"
    by code_simp
  show "aggregate example_providers None = Inr example_snapshot"
    by code_simp
  show "query_da_layer (null_features_da_service DA_IN_PROGRESS 50) = None"
    by (simp add: query_da_layer_def null_features_da_service_def null_features_returned)
  show "get_da_history null_features_da_service None = Inl TypeError"
    by code_simp
  show "aggregate (example_providers \<lparr> application_answers := null_features_da_service \<rparr>) None
        = Inl [TypeError]"
    by code_simp
  show "get_da_history undecided_da_service None = Inl AttributeError"
    by code_simp
  show "aggregate (example_providers \<lparr> application_answers := undecided_da_service \<rparr>) None
        = Inl [AttributeError]"
    by code_simp
  show "get_zone (Body (Present [null_heading_zone_feature])) = Inl AttributeError"
    by code_simp
  show "aggregate (example_providers
                     \<lparr> zoning_answer := Body (Present [null_heading_zone_feature]) \<rparr>) None
        = Inl [AttributeError]"
    by code_simp
qed

end
